theory Spec2Isabelle
  imports Main "HOL-Library.Word" "HOL-Library.Monad_Syntax"
begin

section \<open>Quest native functions (quest\_functions.c)\<close>

type_synonym u32 = "32 word"

text \<open>
  The status codes. Their numeric values are macros of quest\_functions.h and play no part
  in quest\_functions.c, so the codes are kept symbolic: one constructor per
  \<open>QUEST_FUNC_RET_*\<close> macro.
\<close>

datatype quest_func_ret =
    QUEST_FUNC_RET_NO_ERROR
  | QUEST_FUNC_RET_BAD_ARG_COUNT
  | QUEST_FUNC_RET_BAD_RET_COUNT
  | QUEST_FUNC_RET_INVALID_ARG
  | QUEST_FUNC_RET_INVALID_REGISTER
  | QUEST_FUNC_RET_INVALID_FUNC

text \<open>
  The case labels of the switch in \<open>quest_function_dispatch\<close>. Their numeric values
  are macros of the same header; the dispatcher below takes the decoding of
  \<open>q_stack[0]\<close> into a label as a parameter.
\<close>

datatype quest_func =
    QUEST_FUNC_GET_SECTION
  | QUEST_FUNC_TIME
  | QUEST_FUNC_CLIENT_COUNT
  | QUEST_FUNC_GET_CLASS
  | QUEST_FUNC_GET_GENDER
  | QUEST_FUNC_GET_RACE
  | QUEST_FUNC_GET_JOB
  | QUEST_FUNC_GET_FLOOR
  | QUEST_FUNC_GET_POSITION
  | QUEST_FUNC_GET_RANDOM

text \<open>
  The fields of \<open>ship_client_t\<close> that the quest functions read. Every field other than
  \<open>q_stack\<close> holds the value as \<open>send_sync_register\<close> receives it, that is, after
  the conversion to \<open>uint32_t\<close>: \<open>pl_section\<close> and \<open>pl_ch_class\<close> stand for
  \<open>pl->v1.section\<close> and \<open>pl->v1.ch_class\<close> (unsigned), \<open>pos_x\<close>, \<open>pos_y\<close>,
  \<open>pos_z\<close> for \<open>(uint32_t)x\<close>, \<open>(uint32_t)y\<close>, \<open>(uint32_t)z\<close>.
\<close>

record ship_client_t =
  q_stack :: "nat \<Rightarrow> u32"
  pl_section :: u32
  pl_ch_class :: u32
  cur_area :: u32
  pos_x :: u32
  pos_y :: u32
  pos_z :: u32

text \<open>
  \<open>lobby_t\<close>: the client slots (a null pointer is \<open>None\<close>), the client count, and
  the value that the next call of \<open>mt19937_genrand_int32(&l->block->rng)\<close> returns.
\<close>

record lobby_t =
  clients :: "nat \<Rightarrow> ship_client_t option"
  num_clients :: u32
  rng_next :: u32

text \<open>
  A call \<open>send_sync_register(c, reg, value)\<close> is recorded as the pair of its two
  arguments, both computed in \<open>uint32_t\<close> as the source does. A quest function returns
  its status and the calls it made, in order.
\<close>

type_synonym sync_write = "u32 \<times> u32"
type_synonym quest_result = "quest_func_ret \<times> sync_write list"

text \<open>The \<open>if(l->clients[i]) ... else ...\<close> pair around one register.\<close>

definition sync_member :: "lobby_t \<Rightarrow> nat \<Rightarrow> u32 \<Rightarrow> (ship_client_t \<Rightarrow> u32) \<Rightarrow> sync_write list" where
  "sync_member l i reg fld =
     (case clients l i of
        Some cl \<Rightarrow> [(reg, fld cl)]
      | None \<Rightarrow> [(reg, 0xFFFFFFFF)])"

text \<open>The same pair in \<open>get_client_position\<close>: three calls per slot.\<close>

definition sync_member_pos :: "lobby_t \<Rightarrow> nat \<Rightarrow> u32 \<Rightarrow> sync_write list" where
  "sync_member_pos l i reg =
     (case clients l i of
        Some cl \<Rightarrow> [(reg, pos_x cl), (reg + 1, pos_y cl), (reg + 2, pos_z cl)]
      | None \<Rightarrow> [(reg, 0xFFFFFFFF), (reg + 1, 0xFFFFFFFF), (reg + 2, 0xFFFFFFFF)])"

text \<open>
  The shape shared by \<open>get_section_id\<close>, \<open>get_char_class\<close>, \<open>get_char_gender\<close>,
  \<open>get_char_race\<close>, \<open>get_char_job\<close> and \<open>get_client_floor\<close>, which differ only in
  the value sent for a present client.
\<close>

definition member_query :: "(ship_client_t \<Rightarrow> u32) \<Rightarrow> ship_client_t \<Rightarrow> lobby_t \<Rightarrow> quest_result" where
  "member_query fld c l =
     (if q_stack c 1 \<noteq> 1 then (QUEST_FUNC_RET_BAD_ARG_COUNT, [])
      else if q_stack c 3 = 0xFFFFFFFF then
        (if q_stack c 2 \<noteq> 4 then (QUEST_FUNC_RET_BAD_RET_COUNT, [])
         else if q_stack c 4 > 255 \<or> q_stack c 5 > 255 \<or>
                 q_stack c 6 > 255 \<or> q_stack c 7 > 255
           then (QUEST_FUNC_RET_INVALID_REGISTER, [])
         else (QUEST_FUNC_RET_NO_ERROR,
               sync_member l 0 (q_stack c 4) fld @
               sync_member l 1 (q_stack c 5) fld @
               sync_member l 2 (q_stack c 6) fld @
               sync_member l 3 (q_stack c 7) fld))
      else if q_stack c 3 < 4 then
        (if q_stack c 2 \<noteq> 1 then (QUEST_FUNC_RET_BAD_RET_COUNT, [])
         else if q_stack c 4 > 255 then (QUEST_FUNC_RET_INVALID_REGISTER, [])
         else (QUEST_FUNC_RET_NO_ERROR,
               sync_member l (unat (q_stack c 3)) (q_stack c 4) fld))
      else (QUEST_FUNC_RET_INVALID_ARG, []))"

definition get_section_id :: "ship_client_t \<Rightarrow> lobby_t \<Rightarrow> quest_result" where
  "get_section_id c l = member_query pl_section c l"

text \<open>\<open>now\<close> is \<open>(uint32_t)time(NULL)\<close>.\<close>

definition get_time :: "u32 \<Rightarrow> ship_client_t \<Rightarrow> lobby_t \<Rightarrow> quest_result" where
  "get_time now c l =
     (if q_stack c 1 \<noteq> 0 then (QUEST_FUNC_RET_BAD_ARG_COUNT, [])
      else if q_stack c 2 \<noteq> 1 then (QUEST_FUNC_RET_BAD_RET_COUNT, [])
      else if q_stack c 3 > 255 then (QUEST_FUNC_RET_INVALID_REGISTER, [])
      else (QUEST_FUNC_RET_NO_ERROR, [(q_stack c 3, now)]))"

definition get_client_count :: "ship_client_t \<Rightarrow> lobby_t \<Rightarrow> quest_result" where
  "get_client_count c l =
     (if q_stack c 1 \<noteq> 0 then (QUEST_FUNC_RET_BAD_ARG_COUNT, [])
      else if q_stack c 2 \<noteq> 1 then (QUEST_FUNC_RET_BAD_RET_COUNT, [])
      else if q_stack c 3 > 255 then (QUEST_FUNC_RET_INVALID_REGISTER, [])
      else (QUEST_FUNC_RET_NO_ERROR, [(q_stack c 3, num_clients l)]))"

definition get_char_class :: "ship_client_t \<Rightarrow> lobby_t \<Rightarrow> quest_result" where
  "get_char_class c l = member_query pl_ch_class c l"

definition genders :: "int list" where
  "genders = [0, 1, 0, 0, 0, 1, 1, 0, 1, 1, 0, 1]"

definition races :: "int list" where
  "races = [0, 1, 2, 0, 2, 2, 0, 1, 1, 2, 0, 0]"

definition jobs :: "int list" where
  "jobs = [0, 0, 0, 1, 1, 1, 2, 2, 2, 0, 2, 1]"

text \<open>The macro \<open>ATTR(x, y)\<close>, its \<open>int\<close> result converted to \<open>uint32_t\<close>.\<close>

definition ATTR :: "u32 \<Rightarrow> int list \<Rightarrow> u32" where
  "ATTR x y = (if x < 12 then word_of_int (y ! unat x) else word_of_int (- 1))"

definition GENDER :: "u32 \<Rightarrow> u32" where
  "GENDER x = ATTR x genders"

definition RACE :: "u32 \<Rightarrow> u32" where
  "RACE x = ATTR x races"

definition JOB :: "u32 \<Rightarrow> u32" where
  "JOB x = ATTR x jobs"

definition get_char_gender :: "ship_client_t \<Rightarrow> lobby_t \<Rightarrow> quest_result" where
  "get_char_gender c l = member_query (\<lambda>cl. GENDER (pl_ch_class cl)) c l"

definition get_char_race :: "ship_client_t \<Rightarrow> lobby_t \<Rightarrow> quest_result" where
  "get_char_race c l = member_query (\<lambda>cl. RACE (pl_ch_class cl)) c l"

definition get_char_job :: "ship_client_t \<Rightarrow> lobby_t \<Rightarrow> quest_result" where
  "get_char_job c l = member_query (\<lambda>cl. JOB (pl_ch_class cl)) c l"

definition get_client_floor :: "ship_client_t \<Rightarrow> lobby_t \<Rightarrow> quest_result" where
  "get_client_floor c l = member_query cur_area c l"

definition get_client_position :: "ship_client_t \<Rightarrow> lobby_t \<Rightarrow> quest_result" where
  "get_client_position c l =
     (if q_stack c 1 \<noteq> 1 then (QUEST_FUNC_RET_BAD_ARG_COUNT, [])
      else if q_stack c 3 = 0xFFFFFFFF then
        (if q_stack c 2 \<noteq> 4 then (QUEST_FUNC_RET_BAD_RET_COUNT, [])
         else if q_stack c 4 > 255 \<or> q_stack c 5 > 255 \<or>
                 q_stack c 6 > 255 \<or> q_stack c 7 > 255
           then (QUEST_FUNC_RET_INVALID_REGISTER, [])
         else (QUEST_FUNC_RET_NO_ERROR,
               sync_member_pos l 0 (q_stack c 4) @
               sync_member_pos l 1 (q_stack c 5) @
               sync_member_pos l 2 (q_stack c 6) @
               sync_member_pos l 3 (q_stack c 7)))
      else if q_stack c 3 < 4 then
        (if q_stack c 2 \<noteq> 1 then (QUEST_FUNC_RET_BAD_RET_COUNT, [])
         else if q_stack c 4 > 255 then (QUEST_FUNC_RET_INVALID_REGISTER, [])
         else (QUEST_FUNC_RET_NO_ERROR,
               sync_member_pos l (unat (q_stack c 3)) (q_stack c 4)))
      else (QUEST_FUNC_RET_INVALID_ARG, []))"

text \<open>
  \<open>get_random_integer\<close>: \<open>max -= min\<close> is a 32-bit subtraction, the modulus
  \<open>(uint64_t)max + 1\<close> and the sum are 64-bit, and the outer cast truncates to 32 bits.
\<close>

definition get_random_integer :: "ship_client_t \<Rightarrow> lobby_t \<Rightarrow> quest_result" where
  "get_random_integer c l =
     (if q_stack c 1 \<noteq> 2 then (QUEST_FUNC_RET_BAD_ARG_COUNT, [])
      else if q_stack c 2 \<noteq> 1 then (QUEST_FUNC_RET_BAD_RET_COUNT, [])
      else if q_stack c 5 > 255 then (QUEST_FUNC_RET_INVALID_REGISTER, [])
      else
        (let min = q_stack c 3; max = q_stack c 4 in
         if min \<ge> max then (QUEST_FUNC_RET_INVALID_ARG, [])
         else
           (let max' = max - min;
                rnd = (ucast ((ucast (rng_next l) :: 64 word) mod
                              ((ucast max' :: 64 word) + 1) +
                              (ucast min :: 64 word)) :: u32)
            in (QUEST_FUNC_RET_NO_ERROR, [(q_stack c 5, rnd)]))))"

text \<open>
  \<open>quest_function_dispatch\<close>. \<open>decode\<close> maps the value of \<open>q_stack[0]\<close> to the case
  label it equals, if any; \<open>now\<close> is the clock reading that \<open>get_time\<close> would take.
\<close>

definition quest_function_dispatch ::
    "(u32 \<Rightarrow> quest_func option) \<Rightarrow> u32 \<Rightarrow> ship_client_t \<Rightarrow> lobby_t \<Rightarrow> quest_result" where
  "quest_function_dispatch decode now c l =
     (case decode (q_stack c 0) of
        Some QUEST_FUNC_GET_SECTION \<Rightarrow> get_section_id c l
      | Some QUEST_FUNC_TIME \<Rightarrow> get_time now c l
      | Some QUEST_FUNC_CLIENT_COUNT \<Rightarrow> get_client_count c l
      | Some QUEST_FUNC_GET_CLASS \<Rightarrow> get_char_class c l
      | Some QUEST_FUNC_GET_GENDER \<Rightarrow> get_char_gender c l
      | Some QUEST_FUNC_GET_RACE \<Rightarrow> get_char_race c l
      | Some QUEST_FUNC_GET_JOB \<Rightarrow> get_char_job c l
      | Some QUEST_FUNC_GET_FLOOR \<Rightarrow> get_client_floor c l
      | Some QUEST_FUNC_GET_POSITION \<Rightarrow> get_client_position c l
      | Some QUEST_FUNC_GET_RANDOM \<Rightarrow> get_random_integer c l
      | None \<Rightarrow> (QUEST_FUNC_RET_INVALID_FUNC, []))"


section \<open>Scripting hooks (scripts.c, built with \<open>ENABLE_LUA\<close>)\<close>

subsection \<open>The part of the Lua C API that scripts.c calls\<close>

text \<open>
  Lua values as far as scripts.c handles them. A number that is not an integer is kept as
  the bit pattern of its \<open>double\<close>; a function is identified by the number of the chunk
  it was compiled from; a table is a reference to a table object.
\<close>

datatype lua_value =
    LNil
  | LInteger int
  | LNumber "64 word"
  | LString string
  | LLightUserdata nat
  | LFunction nat
  | LTable nat

text \<open>
  A table object, restricted to its integer keys, together with the bookkeeping of
  \<open>luaL_ref\<close> and \<open>luaL_unref\<close>: the released references, most recently released
  first, and the largest reference handed out so far.
\<close>

record lua_table =
  entries :: "int \<Rightarrow> lua_value option"
  free_refs :: "int list"
  last_ref :: int

text \<open>
  The interpreter state: the stack of the running C function (top of the stack first, so
  index \<open>-1\<close> is the head), the table objects by address (address 0 is the registry), the
  number of addresses in use, and the calls made through \<open>lua_pcall\<close> so far (callee
  and arguments, oldest first).
\<close>

record lua_State =
  stack :: "lua_value list"
  tables :: "nat \<Rightarrow> lua_table"
  table_count :: nat
  pcalls :: "(lua_value \<times> lua_value list) list"

definition LUA_REGISTRYINDEX :: int where
  "LUA_REGISTRYINDEX = - 1001000"

definition LUA_REFNIL :: int where
  "LUA_REFNIL = - 1"

text \<open>
  The table object that an index designates: the registry for the pseudo-index, the stack
  slot for a negative index (the only kind scripts.c uses). \<open>None\<close> where the slot does
  not exist or does not hold a table; a raw table access through such an index is outside
  the API's contract, and every operation below returns \<open>None\<close> in that case.
\<close>

definition index2table :: "lua_State \<Rightarrow> int \<Rightarrow> nat option" where
  "index2table L idx =
     (if idx = LUA_REGISTRYINDEX then Some 0
      else if idx < 0 \<and> nat (- idx) \<le> length (stack L) then
        (case stack L ! (nat (- idx) - 1) of LTable a \<Rightarrow> Some a | _ \<Rightarrow> None)
      else None)"

definition lua_push :: "lua_value \<Rightarrow> lua_State \<Rightarrow> lua_State" where
  "lua_push v L = L\<lparr>stack := v # stack L\<rparr>"

definition lua_rawgeti :: "lua_State \<Rightarrow> int \<Rightarrow> int \<Rightarrow> lua_State option" where
  "lua_rawgeti L idx n =
     (case index2table L idx of
        None \<Rightarrow> None
      | Some a \<Rightarrow>
          Some (lua_push (case entries (tables L a) n of Some v \<Rightarrow> v | None \<Rightarrow> LNil) L))"

definition lua_pop :: "lua_State \<Rightarrow> nat \<Rightarrow> lua_State option" where
  "lua_pop L n = (if n \<le> length (stack L) then Some (L\<lparr>stack := drop n (stack L)\<rparr>) else None)"

definition lua_newtable :: "lua_State \<Rightarrow> lua_State" where
  "lua_newtable L =
     L\<lparr>stack := LTable (table_count L) # stack L,
       tables := (tables L)(table_count L :=
                    \<lparr>entries = (\<lambda>k. None), free_refs = [], last_ref = 0\<rparr>),
       table_count := table_count L + 1\<rparr>"

text \<open>
  \<open>luaL_ref\<close> pops the top of the stack and stores it in the table under a key that is
  not in use: the most recently released reference if there is one, a new one otherwise.
  A nil value is popped and not stored.
\<close>

definition luaL_ref :: "lua_State \<Rightarrow> int \<Rightarrow> (int \<times> lua_State) option" where
  "luaL_ref L idx =
     (case stack L of
        [] \<Rightarrow> None
      | v # rest \<Rightarrow>
          if v = LNil then Some (LUA_REFNIL, L\<lparr>stack := rest\<rparr>)
          else
            (case index2table L idx of
               None \<Rightarrow> None
             | Some a \<Rightarrow>
                 (let t = tables L a;
                      ref = (case free_refs t of r # rs \<Rightarrow> r | [] \<Rightarrow> last_ref t + 1);
                      t' = (case free_refs t of
                              r # rs \<Rightarrow> t\<lparr>free_refs := rs\<rparr>
                            | [] \<Rightarrow> t\<lparr>last_ref := last_ref t + 1\<rparr>)
                  in Some (ref, L\<lparr>stack := rest,
                                  tables := (tables L)(a := t'\<lparr>entries := (entries t')(ref \<mapsto> v)\<rparr>)\<rparr>))))"

text \<open>
  \<open>luaL_unref\<close> removes the entry and frees the reference for reuse; a negative
  reference is ignored.
\<close>

definition luaL_unref :: "lua_State \<Rightarrow> int \<Rightarrow> int \<Rightarrow> lua_State option" where
  "luaL_unref L idx ref =
     (if ref < 0 then Some L
      else
        (case index2table L idx of
           None \<Rightarrow> None
         | Some a \<Rightarrow>
             (let t = tables L a
              in Some (L\<lparr>tables := (tables L)(a :=
                           t\<lparr>entries := (entries t)(ref := None),
                             free_refs := ref # free_refs t\<rparr>)\<rparr>))))"

text \<open>
  What lies outside the program: the outcome of loading a script file (an error message
  or the number of the compiled chunk), the outcome of running a chunk on its arguments
  (an error value or the single result), Lua's conversion of a non-integer value to an
  integer, and what libxml2 returns for the declaration file.
\<close>

record xmlNode =
  is_element :: bool
  node_name :: string
  prop_event :: "string option"
  prop_file :: "string option"

text \<open>A parsed document: its root element, if any, as the name and the child nodes.\<close>

datatype xmlDoc = XmlDoc "(string \<times> xmlNode list) option"

record script_env =
  load_result :: "string \<Rightarrow> string + nat"
  run_chunk :: "nat \<Rightarrow> lua_value list \<Rightarrow> lua_value + lua_value"
  cvt2int :: "lua_value \<Rightarrow> int option"
  xmlNewParserCtxt_ok :: bool
  xmlReadFile :: "string \<Rightarrow> xmlDoc option"
  cxt_valid :: bool

text \<open>\<open>luaL_loadfile\<close>: pushes the compiled chunk, or the error message.\<close>

definition luaL_loadfile :: "script_env \<Rightarrow> lua_State \<Rightarrow> string \<Rightarrow> bool \<times> lua_State" where
  "luaL_loadfile env L filename =
     (case load_result env filename of
        Inr k \<Rightarrow> (True, lua_push (LFunction k) L)
      | Inl msg \<Rightarrow> (False, lua_push (LString msg) L))"

text \<open>
  \<open>lua_pcall(L, nargs, 1, 0)\<close>: pops the arguments and the callee and pushes the result,
  or the error value. A callee that is not a function is an error. The handlers are taken
  not to reach the registry or the scripts table themselves.
\<close>

definition lua_pcall :: "script_env \<Rightarrow> lua_State \<Rightarrow> nat \<Rightarrow> (bool \<times> lua_State) option" where
  "lua_pcall env L nargs =
     (if length (stack L) < nargs + 1 then None
      else
        (let args = rev (take nargs (stack L));
             f = stack L ! nargs;
             rest = drop (nargs + 1) (stack L);
             L1 = L\<lparr>pcalls := pcalls L @ [(f, args)]\<rparr>
         in case f of
              LFunction k \<Rightarrow>
                (case run_chunk env k args of
                   Inr v \<Rightarrow> Some (True, L1\<lparr>stack := v # rest\<rparr>)
                 | Inl e \<Rightarrow> Some (False, L1\<lparr>stack := e # rest\<rparr>))
            | _ \<Rightarrow> Some (False, L1\<lparr>stack := LString ''attempt to call a non-function value'' # rest\<rparr>)))"

text \<open>\<open>lua_tointegerx(L, -1, &err)\<close>: the integer and whether the value converts.\<close>

definition lua_tointegerx :: "script_env \<Rightarrow> lua_State \<Rightarrow> (int \<times> bool) option" where
  "lua_tointegerx env L =
     (case stack L of
        [] \<Rightarrow> None
      | v # rest \<Rightarrow>
          (case v of
             LInteger i \<Rightarrow> Some (i, True)
           | LNumber d \<Rightarrow> (case cvt2int env v of Some i \<Rightarrow> Some (i, True) | None \<Rightarrow> Some (0, False))
           | LString str \<Rightarrow> (case cvt2int env v of Some i \<Rightarrow> Some (i, True) | None \<Rightarrow> Some (0, False))
           | _ \<Rightarrow> Some (0, False)))"

subsection \<open>The state of scripts.c\<close>

text \<open>
  The event categories, one per entry of \<open>script_action_text\<close>, in its order (the
  enumeration \<open>script_action_t\<close> itself is declared in scripts.h).
\<close>

datatype script_action_t =
    ScriptAction_STARTUP
  | ScriptAction_SHUTDOWN
  | ScriptAction_SHIP_LOGIN
  | ScriptAction_SHIP_LOGOUT
  | ScriptAction_BLOCK_LOGIN
  | ScriptAction_BLOCK_LOGOUT
  | ScriptAction_UNK_SHIP_PKT
  | ScriptAction_UNK_BLOCK_PKT
  | ScriptAction_UNK_EP3_PKT
  | ScriptAction_TEAM_CREATE
  | ScriptAction_TEAM_DESTROY
  | ScriptAction_TEAM_JOIN
  | ScriptAction_TEAM_LEAVE
  | ScriptAction_ENEMY_KILL
  | ScriptAction_ENEMY_HIT
  | ScriptAction_BOX_BREAK
  | ScriptAction_UNK_COMMAND
  | ScriptAction_SDATA

definition script_action_text :: "(string \<times> script_action_t) list" where
  "script_action_text =
     [(''STARTUP'', ScriptAction_STARTUP),
      (''SHUTDOWN'', ScriptAction_SHUTDOWN),
      (''SHIP_LOGIN'', ScriptAction_SHIP_LOGIN),
      (''SHIP_LOGOUT'', ScriptAction_SHIP_LOGOUT),
      (''BLOCK_LOGIN'', ScriptAction_BLOCK_LOGIN),
      (''BLOCK_LOGOUT'', ScriptAction_BLOCK_LOGOUT),
      (''UNK_SHIP_PKT'', ScriptAction_UNK_SHIP_PKT),
      (''UNK_BLOCK_PKT'', ScriptAction_UNK_BLOCK_PKT),
      (''UNK_EP3_PKT'', ScriptAction_UNK_EP3_PKT),
      (''TEAM_CREATE'', ScriptAction_TEAM_CREATE),
      (''TEAM_DESTROY'', ScriptAction_TEAM_DESTROY),
      (''TEAM_JOIN'', ScriptAction_TEAM_JOIN),
      (''TEAM_LEAVE'', ScriptAction_TEAM_LEAVE),
      (''ENEMY_KILL'', ScriptAction_ENEMY_KILL),
      (''ENEMY_HIT'', ScriptAction_ENEMY_HIT),
      (''BOX_BREAK'', ScriptAction_BOX_BREAK),
      (''UNK_COMMAND'', ScriptAction_UNK_COMMAND),
      (''SDATA'', ScriptAction_SDATA)]"

text \<open>\<open>script_action_to_index\<close>: the first entry whose text equals the string;
  \<open>None\<close> is \<open>ScriptActionInvalid\<close>.\<close>

definition script_action_to_index :: "string \<Rightarrow> script_action_t option" where
  "script_action_to_index str = map_of script_action_text str"

datatype dbg_level = DBG_LOG | DBG_WARN | DBG_ERROR

text \<open>The messages of scripts.c, one constructor per format string.\<close>

datatype log_msg =
    Msg_long_filename
  | Msg_load_failed string
  | Msg_redefining script_action_t
  | Msg_added script_action_t int
  | Msg_unregister_missing script_action_t
  | Msg_no_xml_context
  | Msg_parse_error
  | Msg_validity_error
  | Msg_empty_document
  | Msg_wrong_root
  | Msg_invalid_tag string
  | Msg_incomplete_entry
  | Msg_unknown_event string
  | Msg_invalid_argtype int
  | Msg_run_error script_action_t
  | Msg_not_int script_action_t

text \<open>
  The file-scope variables \<open>lstate\<close>, \<open>scripts_ref\<close> and \<open>script_ids\<close>, and the lines
  written by \<open>debug\<close> and by libxml2's error reporters, oldest first. The mutex is not
  modelled: every function below runs from its lock to its unlock without interleaving.
\<close>

record script_state =
  lstate :: lua_State
  scripts_ref :: int
  script_ids :: "script_action_t \<Rightarrow> int"
  dbg_log :: "(dbg_level \<times> log_msg) list"

definition debug :: "dbg_level \<Rightarrow> log_msg \<Rightarrow> script_state \<Rightarrow> script_state" where
  "debug lvl msg st = st\<lparr>dbg_log := dbg_log st @ [(lvl, msg)]\<rparr>"


subsection \<open>\<open>script_add\<close> and \<open>script_remove\<close>\<close>

text \<open>
  \<open>snprintf(realfn, 64, "scripts/%s", filename)\<close>: at most 63 characters are stored,
  followed by a terminating null character; the bytes after it keep what the array held
  before. \<open>buf\<close> is that earlier content of the automatic array \<open>realfn\<close>, which the
  function does not initialise.
\<close>

definition snprintf_realfn :: "(nat \<Rightarrow> char) \<Rightarrow> string \<Rightarrow> nat \<Rightarrow> char" where
  "snprintf_realfn buf filename =
     (let out = take 63 (''scripts/'' @ filename)
      in (\<lambda>i. if i < length out then out ! i
               else if i = length out then CHR 0x00
               else buf i))"

text \<open>
  Every function of this section returns \<open>None\<close> where the C function makes a Lua API
  call outside that API's contract, and otherwise its return value with the new state.
\<close>

definition script_add ::
    "script_env \<Rightarrow> (nat \<Rightarrow> char) \<Rightarrow> script_state \<Rightarrow> script_action_t \<Rightarrow> string
       \<Rightarrow> (int \<times> script_state) option" where
  "script_add env buf st action filename =
     (if scripts_ref st = 0 then Some (0, st)
      else
        (let realfn = snprintf_realfn buf filename in
         if realfn 63 \<noteq> CHR 0x00 then Some (- 1, debug DBG_WARN Msg_long_filename st)
         else do {
           L1 \<leftarrow> lua_rawgeti (lstate st) LUA_REGISTRYINDEX (scripts_ref st);
           (let (ok, L2) = luaL_loadfile env L1 filename in
            if \<not> ok then do {
              L3 \<leftarrow> lua_pop L2 1;
              Some (- 1, debug DBG_WARN (Msg_load_failed filename) (st\<lparr>lstate := L3\<rparr>))
            }
            else do {
              (st1, L3) \<leftarrow>
                (if script_ids st action \<noteq> 0 then do {
                   L' \<leftarrow> luaL_unref L2 (- 2) (script_ids st action);
                   Some (debug DBG_WARN (Msg_redefining action) st, L')
                 }
                 else Some (st, L2));
              (ref, L4) \<leftarrow> luaL_ref L3 (- 2);
              L5 \<leftarrow> lua_pop L4 1;
              Some (0, debug DBG_LOG (Msg_added action ref)
                         (st1\<lparr>script_ids := (script_ids st1)(action := ref),
                              lstate := L5\<rparr>))
            })
         }))"

definition script_remove :: "script_state \<Rightarrow> script_action_t \<Rightarrow> (int \<times> script_state) option" where
  "script_remove st action =
     (if scripts_ref st = 0 then Some (0, st)
      else if script_ids st action = 0
        then Some (- 1, debug DBG_WARN (Msg_unregister_missing action) st)
      else do {
        L1 \<leftarrow> lua_rawgeti (lstate st) LUA_REGISTRYINDEX (scripts_ref st);
        L2 \<leftarrow> luaL_unref L1 (- 2) (script_ids st action);
        L3 \<leftarrow> lua_pop L2 1;
        Some (0, st\<lparr>lstate := L3\<rparr>)
      })"

subsection \<open>\<open>script_eventlist_read\<close>\<close>

text \<open>The body of the \<open>while(n)\<close> loop over the children of the root element.\<close>

fun read_nodes :: "script_env \<Rightarrow> script_state \<Rightarrow> xmlNode list \<Rightarrow> script_state option" where
  "read_nodes env st [] = Some st"
| "read_nodes env st (n # ns) =
     (if \<not> is_element n then read_nodes env st ns
      else if node_name n \<noteq> ''script''
        then read_nodes env (debug DBG_WARN (Msg_invalid_tag (node_name n)) st) ns
      else
        (case prop_event n of
           None \<Rightarrow> read_nodes env (debug DBG_WARN Msg_incomplete_entry st) ns
         | Some event \<Rightarrow>
             (case prop_file n of
                None \<Rightarrow> read_nodes env (debug DBG_WARN Msg_incomplete_entry st) ns
              | Some file \<Rightarrow>
                  (case script_action_to_index event of
                     None \<Rightarrow> read_nodes env (debug DBG_WARN (Msg_unknown_event event) st) ns
                   | Some idx \<Rightarrow>
                       (let st1 = (if script_ids st idx \<noteq> 0
                                   then debug DBG_WARN (Msg_redefining idx) st else st)
                        in case luaL_loadfile env (lstate st1) file of
                             (False, L1) \<Rightarrow>
                               read_nodes env
                                 (debug DBG_WARN (Msg_load_failed file) (st1\<lparr>lstate := L1\<rparr>)) ns
                           | (True, L1) \<Rightarrow>
                               (case luaL_ref L1 (- 2) of
                                  None \<Rightarrow> None
                                | Some (ref, L2) \<Rightarrow>
                                    read_nodes env
                                      (debug DBG_LOG (Msg_added idx ref)
                                         (st1\<lparr>script_ids := (script_ids st1)(idx := ref),
                                              lstate := L2\<rparr>)) ns))))))"

definition script_eventlist_read ::
    "script_env \<Rightarrow> script_state \<Rightarrow> string \<Rightarrow> (int \<times> script_state) option" where
  "script_eventlist_read env st fn =
     do {
       L0 \<leftarrow> (if scripts_ref st \<noteq> 0
               then luaL_unref (lstate st) LUA_REGISTRYINDEX (scripts_ref st)
               else Some (lstate st));
       (let st0 = st\<lparr>lstate := L0\<rparr> in
        if \<not> xmlNewParserCtxt_ok env then Some (- 1, debug DBG_ERROR Msg_no_xml_context st0)
        else
          (case xmlReadFile env fn of
             None \<Rightarrow> Some (- 2, debug DBG_ERROR Msg_parse_error st0)
           | Some (XmlDoc root) \<Rightarrow>
               if \<not> cxt_valid env then Some (- 3, debug DBG_ERROR Msg_validity_error st0)
               else
                 (case root of
                    None \<Rightarrow> Some (- 4, debug DBG_WARN Msg_empty_document st0)
                  | Some (rname, children) \<Rightarrow>
                      if rname \<noteq> ''scripts'' then Some (- 5, debug DBG_WARN Msg_wrong_root st0)
                      else do {
                        st2 \<leftarrow> read_nodes env (st0\<lparr>lstate := lua_newtable L0\<rparr>) children;
                        (ref, L3) \<leftarrow> luaL_ref (lstate st2) LUA_REGISTRYINDEX;
                        Some (0, st2\<lparr>scripts_ref := ref, lstate := L3\<rparr>)
                      })))
     }"

subsection \<open>\<open>script_execute_pkt\<close> and \<open>script_execute\<close>\<close>

text \<open>\<open>(int)rv\<close>: the \<open>lua_Integer\<close> cut down to a 32-bit \<open>int\<close>.\<close>

definition int_of_lua_Integer :: "int \<Rightarrow> int" where
  "int_of_lua_Integer rv = sint (word_of_int rv :: 32 word)"

text \<open>
  The tail shared by both functions, from \<open>lua_pcall\<close> to \<open>return (int)rv\<close>, for a stack
  that holds the scripts table, the handler and \<open>argcount\<close> arguments.
\<close>

definition call_handler ::
    "script_env \<Rightarrow> script_state \<Rightarrow> script_action_t \<Rightarrow> lua_State \<Rightarrow> nat
       \<Rightarrow> (int \<times> script_state) option" where
  "call_handler env st event L argcount =
     do {
       (ok, L1) \<leftarrow> lua_pcall env L argcount;
       if \<not> ok then do {
         L2 \<leftarrow> lua_pop L1 1;
         L3 \<leftarrow> lua_pop L2 1;
         Some (0, debug DBG_ERROR (Msg_run_error event) (st\<lparr>lstate := L3\<rparr>))
       }
       else do {
         (rv, isint) \<leftarrow> lua_tointegerx env L1;
         L2 \<leftarrow> lua_pop L1 1;
         L3 \<leftarrow> lua_pop L2 1;
         Some (int_of_lua_Integer rv,
               (if \<not> isint then debug DBG_ERROR (Msg_not_int event) else (\<lambda>s. s))
                 (st\<lparr>lstate := L3\<rparr>))
       }
     }"

text \<open>\<open>c\<close> is the client pointer, \<open>pkt\<close> the bytes at the packet pointer, \<open>len\<close> the length.\<close>

definition script_execute_pkt ::
    "script_env \<Rightarrow> script_state \<Rightarrow> script_action_t \<Rightarrow> nat \<Rightarrow> string \<Rightarrow> nat
       \<Rightarrow> (int \<times> script_state) option" where
  "script_execute_pkt env st event c pkt len =
     (if scripts_ref st = 0 then Some (0, st)
      else do {
        L1 \<leftarrow> lua_rawgeti (lstate st) LUA_REGISTRYINDEX (scripts_ref st);
        if script_ids st event = 0 then do {
          L2 \<leftarrow> lua_pop L1 1;
          Some (0, st\<lparr>lstate := L2\<rparr>)
        }
        else do {
          L2 \<leftarrow> lua_rawgeti L1 (- 1) (script_ids st event);
          call_handler env st event
            (lua_push (LString (take len pkt)) (lua_push (LLightUserdata c) L2)) 2
        }
      })"

text \<open>
  One entry of the variable argument list of \<open>script_execute\<close>: the type tag with the
  payload that the matching \<open>case\<close> reads. \<open>SCRIPT_ARG_OTHER\<close> carries a tag that is
  neither zero nor one of the eight known tags. The list ends where the zero tag stands.
\<close>

datatype script_arg =
    SCRIPT_ARG_INT "32 word"
  | SCRIPT_ARG_UINT8 "32 word"
  | SCRIPT_ARG_UINT16 "32 word"
  | SCRIPT_ARG_UINT32 "32 word"
  | SCRIPT_ARG_FLOAT "64 word"
  | SCRIPT_ARG_PTR nat
  | SCRIPT_ARG_STRING nat string
  | SCRIPT_ARG_CSTRING string
  | SCRIPT_ARG_OTHER int

text \<open>The value that the \<open>case\<close> of a known tag pushes.\<close>

fun arg_value :: "script_arg \<Rightarrow> lua_value" where
  "arg_value (SCRIPT_ARG_INT w) = LInteger (sint w)"
| "arg_value (SCRIPT_ARG_UINT8 w) = LInteger (uint (ucast w :: 8 word))"
| "arg_value (SCRIPT_ARG_UINT16 w) = LInteger (uint (ucast w :: 16 word))"
| "arg_value (SCRIPT_ARG_UINT32 w) = LInteger (uint w)"
| "arg_value (SCRIPT_ARG_FLOAT d) = LNumber d"
| "arg_value (SCRIPT_ARG_PTR p) = LLightUserdata p"
| "arg_value (SCRIPT_ARG_STRING len str) = LString (take len str)"
| "arg_value (SCRIPT_ARG_CSTRING str) = LString str"
| "arg_value (SCRIPT_ARG_OTHER t) = LNil"

text \<open>
  The \<open>while((argtype = va_arg(ap, int)))\<close> loop: the state and the count of pushed
  arguments when it stops, and the offending tag if it stopped in the \<open>default\<close> case.
\<close>

fun push_args :: "lua_State \<Rightarrow> nat \<Rightarrow> script_arg list \<Rightarrow> lua_State \<times> nat \<times> int option" where
  "push_args L argcount [] = (L, argcount, None)"
| "push_args L argcount (SCRIPT_ARG_OTHER t # as) = (L, argcount, Some t)"
| "push_args L argcount (a # as) = push_args (lua_push (arg_value a) L) (argcount + 1) as"

definition script_execute ::
    "script_env \<Rightarrow> script_state \<Rightarrow> script_action_t \<Rightarrow> script_arg list
       \<Rightarrow> (int \<times> script_state) option" where
  "script_execute env st event ap =
     (if scripts_ref st = 0 then Some (0, st)
      else do {
        L1 \<leftarrow> lua_rawgeti (lstate st) LUA_REGISTRYINDEX (scripts_ref st);
        if script_ids st event = 0 then do {
          L2 \<leftarrow> lua_pop L1 1;
          Some (0, st\<lparr>lstate := L2\<rparr>)
        }
        else do {
          L2 \<leftarrow> lua_rawgeti L1 (- 1) (script_ids st event);
          (case push_args L2 0 ap of
             (L3, argcount, Some argtype) \<Rightarrow> do {
               L4 \<leftarrow> lua_pop L3 argcount;
               L5 \<leftarrow> lua_pop L4 1;
               Some (0, debug DBG_WARN (Msg_invalid_argtype argtype) (st\<lparr>lstate := L5\<rparr>))
             }
           | (L3, argcount, None) \<Rightarrow> call_handler env st event L3 argcount)
        }
      })"


section \<open>Notions of the specification\<close>

subsection \<open>Dispatcher\<close>

text \<open>The declared argument count of each native function.\<close>

definition declared_arg_count :: "quest_func \<Rightarrow> u32" where
  "declared_arg_count f =
     (case f of
        QUEST_FUNC_TIME \<Rightarrow> 0
      | QUEST_FUNC_CLIENT_COUNT \<Rightarrow> 0
      | QUEST_FUNC_GET_RANDOM \<Rightarrow> 2
      | _ \<Rightarrow> 1)"

text \<open>The functions whose one argument is a target: a group slot or the broadcast value.\<close>

definition takes_target :: "quest_func \<Rightarrow> bool" where
  "takes_target f \<longleftrightarrow>
     f \<noteq> QUEST_FUNC_TIME \<and> f \<noteq> QUEST_FUNC_CLIENT_COUNT \<and> f \<noteq> QUEST_FUNC_GET_RANDOM"

text \<open>
  The return count that the selected branch declares: four for the broadcast form, one
  for the targeted form, none where the target selects no branch; one for the functions
  without a target.
\<close>

definition branch_ret_count :: "quest_func \<Rightarrow> ship_client_t \<Rightarrow> u32 option" where
  "branch_ret_count f c =
     (if takes_target f then
        (if q_stack c 3 = 0xFFFFFFFF then Some 4
         else if q_stack c 3 < 4 then Some 1
         else None)
      else Some 1)"

text \<open>The stack words that the selected branch reads as register indices.\<close>

definition register_args :: "quest_func \<Rightarrow> ship_client_t \<Rightarrow> u32 list" where
  "register_args f c =
     (if takes_target f then
        (if q_stack c 3 = 0xFFFFFFFF
         then [q_stack c 4, q_stack c 5, q_stack c 6, q_stack c 7]
         else [q_stack c 4])
      else if f = QUEST_FUNC_GET_RANDOM then [q_stack c 5]
      else [q_stack c 3])"

definition count_or_register_failure :: "quest_func_ret \<Rightarrow> bool" where
  "count_or_register_failure rv \<longleftrightarrow>
     rv = QUEST_FUNC_RET_BAD_ARG_COUNT \<or> rv = QUEST_FUNC_RET_BAD_RET_COUNT \<or>
     rv = QUEST_FUNC_RET_INVALID_REGISTER"

text \<open>What a query reports for a present member, and into which registers, given the
  register the caller supplied for that member.\<close>

definition member_values :: "quest_func \<Rightarrow> ship_client_t \<Rightarrow> u32 list" where
  "member_values f cl =
     (case f of
        QUEST_FUNC_GET_SECTION \<Rightarrow> [pl_section cl]
      | QUEST_FUNC_GET_CLASS \<Rightarrow> [pl_ch_class cl]
      | QUEST_FUNC_GET_GENDER \<Rightarrow> [GENDER (pl_ch_class cl)]
      | QUEST_FUNC_GET_RACE \<Rightarrow> [RACE (pl_ch_class cl)]
      | QUEST_FUNC_GET_JOB \<Rightarrow> [JOB (pl_ch_class cl)]
      | QUEST_FUNC_GET_FLOOR \<Rightarrow> [cur_area cl]
      | QUEST_FUNC_GET_POSITION \<Rightarrow> [pos_x cl, pos_y cl, pos_z cl]
      | _ \<Rightarrow> [])"

definition designated_registers :: "quest_func \<Rightarrow> u32 \<Rightarrow> u32 list" where
  "designated_registers f base =
     (if f = QUEST_FUNC_GET_POSITION then [base, base + 1, base + 2] else [base])"

definition member_writes :: "quest_func \<Rightarrow> u32 \<Rightarrow> ship_client_t option \<Rightarrow> sync_write list" where
  "member_writes f base m =
     (case m of
        None \<Rightarrow> map (\<lambda>r. (r, 0xFFFFFFFF)) (designated_registers f base)
      | Some cl \<Rightarrow> zip (designated_registers f base) (member_values f cl))"

text \<open>
  Modelled from the spec: \<open>send_sync_register\<close> is defined in ship\_packets.c, which is
  not one of the two source files modelled here. The specification's register file is a store of 32-bit
  words addressed by register index, and a call sets the addressed slot.
\<close>

definition registers_after :: "sync_write list \<Rightarrow> (u32 \<Rightarrow> u32) \<Rightarrow> (u32 \<Rightarrow> u32)" where
  "registers_after ws regs = foldl (\<lambda>rf w. rf(fst w := snd w)) regs ws"

subsection \<open>Registry\<close>

text \<open>
  The handler that \<open>script_execute\<close> fetches for an event: the entry, under the event's
  reference, of the table that the registry holds under \<open>scripts_ref\<close>.
\<close>

definition bound_handler :: "script_state \<Rightarrow> script_action_t \<Rightarrow> lua_value option" where
  "bound_handler st event =
     (if scripts_ref st = 0 \<or> script_ids st event = 0 then None
      else
        (case entries (tables (lstate st) 0) (scripts_ref st) of
           Some (LTable a) \<Rightarrow> entries (tables (lstate st) a) (script_ids st event)
         | _ \<Rightarrow> None))"

text \<open>The conditions under which \<open>script_eventlist_read\<close> takes one of its error exits.\<close>

definition structurally_invalid :: "script_env \<Rightarrow> string \<Rightarrow> bool" where
  "structurally_invalid env fn \<longleftrightarrow>
     \<not> xmlNewParserCtxt_ok env \<or>
     (case xmlReadFile env fn of
        None \<Rightarrow> True
      | Some (XmlDoc root) \<Rightarrow>
          \<not> cxt_valid env \<or>
          (case root of None \<Rightarrow> True | Some (rname, children) \<Rightarrow> rname \<noteq> ''scripts''))"

text \<open>The return value of a call, and the handler bound after it.\<close>

definition return_value :: "(int \<times> script_state) option \<Rightarrow> int option" where
  "return_value r = map_option fst r"

definition handler_after :: "(int \<times> script_state) option \<Rightarrow> script_action_t \<Rightarrow> lua_value option" where
  "handler_after r event = (case r of None \<Rightarrow> None | Some (rv, st') \<Rightarrow> bound_handler st' event)"

text \<open>The calls through \<open>lua_pcall\<close> on record after a call of one of the functions.\<close>

definition pcalls_after :: "(int \<times> script_state) option \<Rightarrow> (lua_value \<times> lua_value list) list option" where
  "pcalls_after r = map_option (\<lambda>p. pcalls (lstate (snd p))) r"

text \<open>Running \<open>script_execute\<close> in the state that an earlier call left.\<close>

definition execute_after ::
    "script_env \<Rightarrow> (int \<times> script_state) option \<Rightarrow> script_action_t \<Rightarrow> script_arg list
       \<Rightarrow> (int \<times> script_state) option" where
  "execute_after env r event ap =
     (case r of None \<Rightarrow> None | Some (rv, st') \<Rightarrow> script_execute env st' event ap)"

definition execute_pkt_after ::
    "script_env \<Rightarrow> (int \<times> script_state) option \<Rightarrow> script_action_t \<Rightarrow> nat \<Rightarrow> string \<Rightarrow> nat
       \<Rightarrow> (int \<times> script_state) option" where
  "execute_pkt_after env r event c pkt len =
     (case r of None \<Rightarrow> None | Some (rv, st') \<Rightarrow> script_execute_pkt env st' event c pkt len)"

text \<open>What the registry holds under \<open>scripts_ref\<close> after a call.\<close>

definition scripts_table_after :: "(int \<times> script_state) option \<Rightarrow> lua_value option" where
  "scripts_table_after r =
     (case r of
        None \<Rightarrow> None
      | Some (rv, st') \<Rightarrow> entries (tables (lstate st') 0) (scripts_ref st'))"

text \<open>An argument entry with one of the eight known type tags.\<close>

definition arg_known :: "script_arg \<Rightarrow> bool" where
  "arg_known a \<longleftrightarrow> (case a of SCRIPT_ARG_OTHER t \<Rightarrow> False | _ \<Rightarrow> True)"

section \<open>Concrete inputs\<close>

text \<open>A call-stack frame given by its leading words; the words after them are zero.\<close>

definition frame :: "u32 list \<Rightarrow> ship_client_t" where
  "frame ws =
     \<lparr>q_stack = (\<lambda>i. if i < length ws then ws ! i else 0),
      pl_section = 0, pl_ch_class = 0, cur_area = 0, pos_x = 0, pos_y = 0, pos_z = 0\<rparr>"

text \<open>A numbering of the case labels for the concrete scenarios: the order of the switch.\<close>

definition decode_sample :: "u32 \<Rightarrow> quest_func option" where
  "decode_sample w =
     (if w = 0 then Some QUEST_FUNC_GET_SECTION
      else if w = 1 then Some QUEST_FUNC_TIME
      else if w = 2 then Some QUEST_FUNC_CLIENT_COUNT
      else if w = 3 then Some QUEST_FUNC_GET_CLASS
      else if w = 4 then Some QUEST_FUNC_GET_GENDER
      else if w = 5 then Some QUEST_FUNC_GET_RACE
      else if w = 6 then Some QUEST_FUNC_GET_JOB
      else if w = 7 then Some QUEST_FUNC_GET_FLOOR
      else if w = 8 then Some QUEST_FUNC_GET_POSITION
      else if w = 9 then Some QUEST_FUNC_GET_RANDOM
      else None)"

definition empty_lobby :: lobby_t where
  "empty_lobby = \<lparr>clients = (\<lambda>i. None), num_clients = 0, rng_next = 0\<rparr>"

definition member_of_class :: "u32 \<Rightarrow> ship_client_t" where
  "member_of_class k = (frame [])\<lparr>pl_ch_class := k\<rparr>"

text \<open>The group of the specification's scenario: members in slots 0 and 2, of classes 3 and 7.\<close>

definition scenario_lobby :: lobby_t where
  "scenario_lobby =
     \<lparr>clients = (\<lambda>i. if i = 0 then Some (member_of_class 3)
                     else if i = 2 then Some (member_of_class 7)
                     else None),
      num_clients = 2, rng_next = 0\<rparr>"

definition sample_env :: script_env where
  "sample_env =
     \<lparr>load_result = (\<lambda>f. if f = ''login.lua'' then Inr 7
                          else if f = replicate 60 (CHR ''a'') then Inr 8
                          else Inl ''cannot open''),
      run_chunk = (\<lambda>k args. Inr (LInteger 1)),
      cvt2int = (\<lambda>v. None),
      xmlNewParserCtxt_ok = True,
      xmlReadFile = (\<lambda>fn. None),
      cxt_valid = True\<rparr>"

definition empty_table :: lua_table where
  "empty_table = \<lparr>entries = (\<lambda>k. None), free_refs = [], last_ref = 0\<rparr>"

text \<open>An interpreter without a scripts table.\<close>

definition unloaded_state :: script_state where
  "unloaded_state =
     \<lparr>lstate = \<lparr>stack = [], tables = (\<lambda>a. empty_table), table_count = 1, pcalls = []\<rparr>,
      scripts_ref = 0,
      script_ids = (\<lambda>e. 0),
      dbg_log = []\<rparr>"

text \<open>
  A loaded registry: the registry holds the scripts table (address 1) under reference 3,
  and the scripts table holds chunk 5 under reference 1, bound to the startup event.
\<close>

definition loaded_state :: script_state where
  "loaded_state =
     \<lparr>lstate =
        \<lparr>stack = [],
         tables = (\<lambda>a. if a = 0 then \<lparr>entries = (\<lambda>k. if k = 3 then Some (LTable 1) else None),
                                       free_refs = [], last_ref = 3\<rparr>
                        else if a = 1 then \<lparr>entries = (\<lambda>k. if k = 1 then Some (LFunction 5) else None),
                                             free_refs = [], last_ref = 1\<rparr>
                        else empty_table),
         table_count = 2,
         pcalls = []\<rparr>,
      scripts_ref = 3,
      script_ids = (\<lambda>e. if e = ScriptAction_STARTUP then 1 else 0),
      dbg_log = []\<rparr>"

section \<open>Dispatcher: properties\<close>

lemma unat_ucast_32_64: "unat (ucast (w :: u32) :: 64 word) = unat w"
proof -
  have "unat w < 2 ^ 64" using unsigned_less [of w, where 'a = nat] by simp
  then show ?thesis by (simp add: unsigned_ucast_eq take_bit_nat_eq_self)
qed

lemma rnd_unat:
  fixes d mn mx :: u32
  assumes "mn < mx"
  shows "unat (ucast ((ucast d :: 64 word) mod ((ucast (mx - mn) :: 64 word) + 1) +
                      (ucast mn :: 64 word)) :: u32)
         = unat d mod (unat mx - unat mn + 1) + unat mn"
proof -
  define k where "k = unat mx - unat mn + 1"
  define a where "a = unat d mod k"
  have le: "unat mn \<le> unat mx" using assms by (simp add: word_less_nat_alt)
  have sub: "unat (mx - mn) = unat mx - unat mn"
    using assms by (simp add: unat_sub word_le_nat_alt word_less_nat_alt)
  have b32: "unat mx < 2 ^ 32" using unsigned_less [of mx, where 'a = nat] by simp
  have "unat ((ucast (mx - mn) :: 64 word) + 1) = (unat mx - unat mn + 1) mod 2 ^ 64"
    by (simp add: unat_word_ariths unat_ucast_32_64 sub)
  also have "\<dots> = k" using b32 by (simp add: k_def)
  finally have u1: "unat ((ucast (mx - mn) :: 64 word) + 1) = k" .
  have u2: "unat ((ucast d :: 64 word) mod ((ucast (mx - mn) :: 64 word) + 1)) = a"
    by (simp only: unat_mod u1 unat_ucast_32_64 a_def)
  have "a < k" by (simp add: a_def k_def)
  then have m: "a + unat mn \<le> unat mx" using le by (simp add: k_def)
  have "unat ((ucast d :: 64 word) mod ((ucast (mx - mn) :: 64 word) + 1) + (ucast mn :: 64 word))
        = (a + unat mn) mod 2 ^ 64"
    by (simp only: unat_word_ariths(1) u2 unat_ucast_32_64) simp
  also have "\<dots> = a + unat mn" using m b32 by simp
  finally have u3: "unat ((ucast d :: 64 word) mod ((ucast (mx - mn) :: 64 word) + 1) +
                          (ucast mn :: 64 word)) = a + unat mn" .
  have "unat (ucast ((ucast d :: 64 word) mod ((ucast (mx - mn) :: 64 word) + 1) +
                     (ucast mn :: 64 word)) :: u32)
        = take_bit 32 (a + unat mn)"
    by (simp only: unsigned_ucast_eq u3) simp
  also have "\<dots> = a + unat mn" using m b32 by (simp add: take_bit_nat_eq_self)
  finally show ?thesis by (simp add: a_def k_def)
qed

lemma rnd_in_range:
  fixes d mn mx :: u32
  assumes "mn < mx"
  defines "rnd \<equiv> (ucast ((ucast d :: 64 word) mod ((ucast (mx - mn) :: 64 word) + 1) +
                          (ucast mn :: 64 word)) :: u32)"
  shows "mn \<le> rnd \<and> rnd \<le> mx"
proof -
  have le: "unat mn \<le> unat mx" using assms(1) by (simp add: word_less_nat_alt)
  have eq: "unat rnd = unat d mod (unat mx - unat mn + 1) + unat mn"
    unfolding rnd_def by (rule rnd_unat [OF assms(1)])
  have "unat d mod (unat mx - unat mn + 1) < unat mx - unat mn + 1" by simp
  then have "unat rnd \<le> unat mx" using le eq by linarith
  moreover have "unat mn \<le> unat rnd" using eq by simp
  ultimately show ?thesis by (simp add: word_le_nat_alt)
qed

text \<open>
  C3. The bounded-random function with two arguments, one result and a result register
  below 256: for \<open>min \<ge> max\<close> the dispatcher returns \<open>INVALID_ARG\<close> and writes
  nothing; for \<open>min < max\<close> it returns \<open>NO_ERROR\<close> and writes, to the result register
  only, the value \<open>generator() % (max - min + 1) + min\<close> computed without wrap-around,
  which lies in \<open>[min, max]\<close> for every generator output.
\<close>

theorem get_random_integer_range:
  assumes "decode (q_stack c 0) = Some QUEST_FUNC_GET_RANDOM"
    and "q_stack c 1 = 2" and "q_stack c 2 = 1" and "q_stack c 5 \<le> 255"
  shows "(q_stack c 3 \<ge> q_stack c 4 \<longrightarrow>
            quest_function_dispatch decode now c l = (QUEST_FUNC_RET_INVALID_ARG, [])) \<and>
         (q_stack c 3 < q_stack c 4 \<longrightarrow>
            (\<exists>v. quest_function_dispatch decode now c l =
                    (QUEST_FUNC_RET_NO_ERROR, [(q_stack c 5, v)]) \<and>
                  unat v = unat (rng_next l) mod (unat (q_stack c 4) - unat (q_stack c 3) + 1)
                           + unat (q_stack c 3) \<and>
                  q_stack c 3 \<le> v \<and> v \<le> q_stack c 4))"
proof (intro conjI impI)
  assume ge: "q_stack c 3 \<ge> q_stack c 4"
  have n5: "\<not> 255 < q_stack c 5" using assms(4) by (simp add: not_less)
  show "quest_function_dispatch decode now c l = (QUEST_FUNC_RET_INVALID_ARG, [])"
    using assms(1-3) n5 ge
    by (simp add: quest_function_dispatch_def get_random_integer_def Let_def)
next
  assume lt: "q_stack c 3 < q_stack c 4"
  let ?v = "(ucast ((ucast (rng_next l) :: 64 word) mod
                    ((ucast (q_stack c 4 - q_stack c 3) :: 64 word) + 1) +
                    (ucast (q_stack c 3) :: 64 word)) :: u32)"
  have n5: "\<not> 255 < q_stack c 5" using assms(4) by (simp add: not_less)
  have n34: "\<not> q_stack c 4 \<le> q_stack c 3" using lt by (simp add: not_le)
  have "quest_function_dispatch decode now c l = (QUEST_FUNC_RET_NO_ERROR, [(q_stack c 5, ?v)])"
    using assms(1-3) n5 n34
    by (simp add: quest_function_dispatch_def get_random_integer_def Let_def)
  moreover have "unat ?v = unat (rng_next l) mod (unat (q_stack c 4) - unat (q_stack c 3) + 1)
                           + unat (q_stack c 3)"
    by (rule rnd_unat [OF lt])
  moreover have "q_stack c 3 \<le> ?v \<and> ?v \<le> q_stack c 4"
    by (rule rnd_in_range [OF lt])
  ultimately show "\<exists>v. quest_function_dispatch decode now c l =
                    (QUEST_FUNC_RET_NO_ERROR, [(q_stack c 5, v)]) \<and>
                  unat v = unat (rng_next l) mod (unat (q_stack c 4) - unat (q_stack c 3) + 1)
                           + unat (q_stack c 3) \<and>
                  q_stack c 3 \<le> v \<and> v \<le> q_stack c 4"
    by blast
qed

theorem get_random_integer_range_witness:
  "quest_function_dispatch decode_sample 0 (frame [9, 2, 1, 0, 0xFFFFFFFF, 10])
     (empty_lobby\<lparr>rng_next := 0xFFFFFFFF\<rparr>)
   = (QUEST_FUNC_RET_NO_ERROR, [(10, 0xFFFFFFFF)]) \<and>
   quest_function_dispatch decode_sample 0 (frame [9, 2, 1, 7, 7, 10]) empty_lobby
   = (QUEST_FUNC_RET_INVALID_ARG, [])"
proof -
  let ?c = "frame [9, 2, 1, 0, 0xFFFFFFFF, 10]"
  let ?l = "empty_lobby\<lparr>rng_next := 0xFFFFFFFF\<rparr>"
  have h: "decode_sample (q_stack ?c 0) = Some QUEST_FUNC_GET_RANDOM" "q_stack ?c 1 = 2"
    "q_stack ?c 2 = 1" "q_stack ?c 5 \<le> 255" "q_stack ?c 3 < q_stack ?c 4"
    by (simp_all add: frame_def decode_sample_def)
  from get_random_integer_range [where decode = decode_sample and c = ?c and now = 0 and l = ?l, OF h(1-4)] h(5)
  obtain v where v: "quest_function_dispatch decode_sample 0 ?c ?l =
                       (QUEST_FUNC_RET_NO_ERROR, [(q_stack ?c 5, v)])"
    and u: "unat v = unat (rng_next ?l) mod (unat (q_stack ?c 4) - unat (q_stack ?c 3) + 1)
                     + unat (q_stack ?c 3)"
    by blast
  have "unat v = unat (0xFFFFFFFF :: u32)" using u by (simp add: frame_def)
  then have "v = 0xFFFFFFFF" by (simp only: word_unat_eq_iff)
  then have a: "quest_function_dispatch decode_sample 0 ?c ?l =
                  (QUEST_FUNC_RET_NO_ERROR, [(10, 0xFFFFFFFF)])"
    using v by (simp add: frame_def)
  let ?c2 = "frame [9, 2, 1, 7, 7, 10]"
  have h2: "decode_sample (q_stack ?c2 0) = Some QUEST_FUNC_GET_RANDOM" "q_stack ?c2 1 = 2"
    "q_stack ?c2 2 = 1" "q_stack ?c2 5 \<le> 255" "q_stack ?c2 3 \<ge> q_stack ?c2 4"
    by (simp_all add: frame_def decode_sample_def)
  from get_random_integer_range [where decode = decode_sample and c = ?c2 and now = 0 and l = empty_lobby, OF h2(1-4)] h2(5)
  have b: "quest_function_dispatch decode_sample 0 ?c2 empty_lobby = (QUEST_FUNC_RET_INVALID_ARG, [])"
    by blast
  from a b show ?thesis by simp
qed


lemma dispatch_bad_arg_count:
  assumes "decode (q_stack c 0) = Some f" and "q_stack c 1 \<noteq> declared_arg_count f"
  shows "quest_function_dispatch decode now c l = (QUEST_FUNC_RET_BAD_ARG_COUNT, [])"
  using assms
  by (cases f) (simp_all add: quest_function_dispatch_def declared_arg_count_def
      get_section_id_def get_time_def get_client_count_def get_char_class_def
      get_char_gender_def get_char_race_def get_char_job_def get_client_floor_def
      get_client_position_def get_random_integer_def member_query_def)

lemma dispatch_bad_ret_count:
  assumes "decode (q_stack c 0) = Some f" and "q_stack c 1 = declared_arg_count f"
    and "branch_ret_count f c = Some n" and "q_stack c 2 \<noteq> n"
  shows "quest_function_dispatch decode now c l = (QUEST_FUNC_RET_BAD_RET_COUNT, [])"
  using assms
  by (cases f) (auto simp add: quest_function_dispatch_def declared_arg_count_def
      branch_ret_count_def takes_target_def
      get_section_id_def get_time_def get_client_count_def get_char_class_def
      get_char_gender_def get_char_race_def get_char_job_def get_client_floor_def
      get_client_position_def get_random_integer_def member_query_def split: if_splits)

lemma dispatch_invalid_register:
  assumes "decode (q_stack c 0) = Some f" and "q_stack c 1 = declared_arg_count f"
    and "branch_ret_count f c = Some (q_stack c 2)"
    and "\<exists>r \<in> set (register_args f c). r > 255"
  shows "quest_function_dispatch decode now c l = (QUEST_FUNC_RET_INVALID_REGISTER, [])"
  using assms
  by (cases f) (auto simp add: quest_function_dispatch_def declared_arg_count_def
      branch_ret_count_def register_args_def takes_target_def
      get_section_id_def get_time_def get_client_count_def get_char_class_def
      get_char_gender_def get_char_race_def get_char_job_def get_client_floor_def
      get_client_position_def get_random_integer_def member_query_def split: if_splits)

lemma member_query_failure_no_write:
  "count_or_register_failure (fst (member_query fld c l)) \<Longrightarrow> snd (member_query fld c l) = []"
  by (auto simp add: member_query_def count_or_register_failure_def split: if_splits)

lemma get_client_position_failure_no_write:
  "count_or_register_failure (fst (get_client_position c l)) \<Longrightarrow>
   snd (get_client_position c l) = []"
  by (auto simp add: get_client_position_def count_or_register_failure_def split: if_splits)

lemma get_random_integer_failure_no_write:
  "count_or_register_failure (fst (get_random_integer c l)) \<Longrightarrow>
   snd (get_random_integer c l) = []"
  by (auto simp add: get_random_integer_def Let_def count_or_register_failure_def split: if_splits)

lemma get_time_failure_no_write:
  "count_or_register_failure (fst (get_time now c l)) \<Longrightarrow> snd (get_time now c l) = []"
  by (auto simp add: get_time_def count_or_register_failure_def split: if_splits)

lemma get_client_count_failure_no_write:
  "count_or_register_failure (fst (get_client_count c l)) \<Longrightarrow> snd (get_client_count c l) = []"
  by (auto simp add: get_client_count_def count_or_register_failure_def split: if_splits)

lemma dispatch_failure_no_write:
  assumes "count_or_register_failure (fst (quest_function_dispatch decode now c l))"
  shows "snd (quest_function_dispatch decode now c l) = []"
proof (cases "decode (q_stack c 0)")
  case None
  then show ?thesis by (simp add: quest_function_dispatch_def)
next
  case (Some f)
  then show ?thesis
    using assms
    by (cases f) (simp_all add: quest_function_dispatch_def get_section_id_def
        get_char_class_def get_char_gender_def get_char_race_def get_char_job_def
        get_client_floor_def member_query_failure_no_write
        get_client_position_failure_no_write get_random_integer_failure_no_write
        get_time_failure_no_write get_client_count_failure_no_write)
qed

text \<open>
  C4. For every native function, in the order in which the dispatcher validates a frame:
  an argument count other than the declared one gives \<open>BAD_ARG_COUNT\<close>; with the
  argument count right, a return count other than the one the selected branch declares
  gives \<open>BAD_RET_COUNT\<close>; with both counts right, a register-index argument of 256 or
  more gives \<open>INVALID_REGISTER\<close>; and whenever the dispatcher returns one of these three
  codes it has made no register write.
\<close>

theorem dispatch_validation_no_write:
  "(decode (q_stack c 0) = Some f \<and> q_stack c 1 \<noteq> declared_arg_count f \<longrightarrow>
      quest_function_dispatch decode now c l = (QUEST_FUNC_RET_BAD_ARG_COUNT, [])) \<and>
   (decode (q_stack c 0) = Some f \<and> q_stack c 1 = declared_arg_count f \<and>
    branch_ret_count f c = Some n \<and> q_stack c 2 \<noteq> n \<longrightarrow>
      quest_function_dispatch decode now c l = (QUEST_FUNC_RET_BAD_RET_COUNT, [])) \<and>
   (decode (q_stack c 0) = Some f \<and> q_stack c 1 = declared_arg_count f \<and>
    branch_ret_count f c = Some (q_stack c 2) \<and>
    (\<exists>r \<in> set (register_args f c). r \<ge> 256) \<longrightarrow>
      quest_function_dispatch decode now c l = (QUEST_FUNC_RET_INVALID_REGISTER, [])) \<and>
   (count_or_register_failure (fst (quest_function_dispatch decode now c l)) \<longrightarrow>
      snd (quest_function_dispatch decode now c l) = [])"
proof (intro conjI impI)
  assume "decode (q_stack c 0) = Some f \<and> q_stack c 1 \<noteq> declared_arg_count f"
  then show "quest_function_dispatch decode now c l = (QUEST_FUNC_RET_BAD_ARG_COUNT, [])"
    by (simp add: dispatch_bad_arg_count)
next
  assume "decode (q_stack c 0) = Some f \<and> q_stack c 1 = declared_arg_count f \<and>
    branch_ret_count f c = Some n \<and> q_stack c 2 \<noteq> n"
  then show "quest_function_dispatch decode now c l = (QUEST_FUNC_RET_BAD_RET_COUNT, [])"
    using dispatch_bad_ret_count [of decode c f n now l] by simp
next
  assume a: "decode (q_stack c 0) = Some f \<and> q_stack c 1 = declared_arg_count f \<and>
    branch_ret_count f c = Some (q_stack c 2) \<and>
    (\<exists>r \<in> set (register_args f c). r \<ge> 256)"
  then obtain r where r: "r \<in> set (register_args f c)" "r \<ge> 256" by blast
  have "(256 :: u32) = 255 + 1" by simp
  then have "r > 255" using r(2) by (simp add: word_less_nat_alt word_le_nat_alt)
  then have "\<exists>r \<in> set (register_args f c). r > 255" using r(1) by blast
  then show "quest_function_dispatch decode now c l = (QUEST_FUNC_RET_INVALID_REGISTER, [])"
    using a dispatch_invalid_register [of decode c f now l] by simp
next
  assume "count_or_register_failure (fst (quest_function_dispatch decode now c l))"
  then show "snd (quest_function_dispatch decode now c l) = []"
    by (rule dispatch_failure_no_write)
qed

theorem dispatch_validation_no_write_witness:
  "quest_function_dispatch decode_sample 0 (frame [1, 3, 1, 10]) empty_lobby
     = (QUEST_FUNC_RET_BAD_ARG_COUNT, []) \<and>
   quest_function_dispatch decode_sample 0 (frame [3, 1, 2, 0xFFFFFFFF, 5, 6, 7, 8]) empty_lobby
     = (QUEST_FUNC_RET_BAD_RET_COUNT, []) \<and>
   quest_function_dispatch decode_sample 0 (frame [8, 1, 4, 0xFFFFFFFF, 5, 6, 7, 256]) empty_lobby
     = (QUEST_FUNC_RET_INVALID_REGISTER, []) \<and>
   snd (quest_function_dispatch decode_sample 0 (frame [8, 1, 4, 0xFFFFFFFF, 5, 6, 7, 256])
          empty_lobby) = []"
proof -
  let ?c1 = "frame [1, 3, 1, 10]"
  let ?c2 = "frame [3, 1, 2, 0xFFFFFFFF, 5, 6, 7, 8]"
  let ?c3 = "frame [8, 1, 4, 0xFFFFFFFF, 5, 6, 7, 256]"
  have h1: "decode_sample (q_stack ?c1 0) = Some QUEST_FUNC_TIME \<and>
            q_stack ?c1 1 \<noteq> declared_arg_count QUEST_FUNC_TIME"
    by (simp add: frame_def decode_sample_def declared_arg_count_def)
  have h2: "decode_sample (q_stack ?c2 0) = Some QUEST_FUNC_GET_CLASS \<and>
            q_stack ?c2 1 = declared_arg_count QUEST_FUNC_GET_CLASS \<and>
            branch_ret_count QUEST_FUNC_GET_CLASS ?c2 = Some 4 \<and> q_stack ?c2 2 \<noteq> 4"
    by (simp add: frame_def decode_sample_def declared_arg_count_def branch_ret_count_def
        takes_target_def)
  have h3: "decode_sample (q_stack ?c3 0) = Some QUEST_FUNC_GET_POSITION \<and>
            q_stack ?c3 1 = declared_arg_count QUEST_FUNC_GET_POSITION \<and>
            branch_ret_count QUEST_FUNC_GET_POSITION ?c3 = Some (q_stack ?c3 2) \<and>
            (\<exists>r \<in> set (register_args QUEST_FUNC_GET_POSITION ?c3). r \<ge> 256)"
    by (simp add: frame_def decode_sample_def declared_arg_count_def branch_ret_count_def
        register_args_def takes_target_def)
  note t1 = dispatch_validation_no_write [where decode = decode_sample and c = ?c1
      and f = QUEST_FUNC_TIME and now = 0 and l = empty_lobby and n = 0]
  note t2 = dispatch_validation_no_write [where decode = decode_sample and c = ?c2
      and f = QUEST_FUNC_GET_CLASS and now = 0 and l = empty_lobby and n = 4]
  note t3 = dispatch_validation_no_write [where decode = decode_sample and c = ?c3
      and f = QUEST_FUNC_GET_POSITION and now = 0 and l = empty_lobby and n = 0]
  have a: "quest_function_dispatch decode_sample 0 ?c1 empty_lobby
             = (QUEST_FUNC_RET_BAD_ARG_COUNT, [])"
    using t1 h1 by blast
  have b: "quest_function_dispatch decode_sample 0 ?c2 empty_lobby
             = (QUEST_FUNC_RET_BAD_RET_COUNT, [])"
    using t2 h2 by blast
  have c: "quest_function_dispatch decode_sample 0 ?c3 empty_lobby
             = (QUEST_FUNC_RET_INVALID_REGISTER, [])"
    using t3 h3 by blast
  have "count_or_register_failure (fst (quest_function_dispatch decode_sample 0 ?c3 empty_lobby))"
    using c by (simp add: count_or_register_failure_def)
  then have d: "snd (quest_function_dispatch decode_sample 0 ?c3 empty_lobby) = []"
    using t3 by blast
  from a b c d show ?thesis by blast
qed

lemma member_query_broadcast:
  assumes "q_stack c 1 = 1" and "q_stack c 3 = 0xFFFFFFFF" and "q_stack c 2 = 4"
    and "q_stack c 4 \<le> 255" and "q_stack c 5 \<le> 255"
    and "q_stack c 6 \<le> 255" and "q_stack c 7 \<le> 255"
  shows "member_query fld c l =
           (QUEST_FUNC_RET_NO_ERROR,
            sync_member l 0 (q_stack c 4) fld @ sync_member l 1 (q_stack c 5) fld @
            sync_member l 2 (q_stack c 6) fld @ sync_member l 3 (q_stack c 7) fld)"
proof -
  have "\<not> 255 < q_stack c 4" "\<not> 255 < q_stack c 5" "\<not> 255 < q_stack c 6" "\<not> 255 < q_stack c 7"
    using assms(4-7) by (simp_all add: not_less)
  then show ?thesis using assms(1-3) by (simp add: member_query_def)
qed

lemma get_client_position_broadcast:
  assumes "q_stack c 1 = 1" and "q_stack c 3 = 0xFFFFFFFF" and "q_stack c 2 = 4"
    and "q_stack c 4 \<le> 255" and "q_stack c 5 \<le> 255"
    and "q_stack c 6 \<le> 255" and "q_stack c 7 \<le> 255"
  shows "get_client_position c l =
           (QUEST_FUNC_RET_NO_ERROR,
            sync_member_pos l 0 (q_stack c 4) @ sync_member_pos l 1 (q_stack c 5) @
            sync_member_pos l 2 (q_stack c 6) @ sync_member_pos l 3 (q_stack c 7))"
proof -
  have "\<not> 255 < q_stack c 4" "\<not> 255 < q_stack c 5" "\<not> 255 < q_stack c 6" "\<not> 255 < q_stack c 7"
    using assms(4-7) by (simp_all add: not_less)
  then show ?thesis using assms(1-3) by (simp add: get_client_position_def)
qed

lemma sync_member_is_member_writes:
  "f = QUEST_FUNC_GET_SECTION \<Longrightarrow> sync_member l i reg pl_section = member_writes f reg (clients l i)"
  "f = QUEST_FUNC_GET_CLASS \<Longrightarrow> sync_member l i reg pl_ch_class = member_writes f reg (clients l i)"
  "f = QUEST_FUNC_GET_GENDER \<Longrightarrow>
     sync_member l i reg (\<lambda>cl. GENDER (pl_ch_class cl)) = member_writes f reg (clients l i)"
  "f = QUEST_FUNC_GET_RACE \<Longrightarrow>
     sync_member l i reg (\<lambda>cl. RACE (pl_ch_class cl)) = member_writes f reg (clients l i)"
  "f = QUEST_FUNC_GET_JOB \<Longrightarrow>
     sync_member l i reg (\<lambda>cl. JOB (pl_ch_class cl)) = member_writes f reg (clients l i)"
  "f = QUEST_FUNC_GET_FLOOR \<Longrightarrow> sync_member l i reg cur_area = member_writes f reg (clients l i)"
  by (simp_all add: sync_member_def member_writes_def designated_registers_def
      member_values_def split: option.splits)

lemma sync_member_pos_is_member_writes:
  "sync_member_pos l i reg = member_writes QUEST_FUNC_GET_POSITION reg (clients l i)"
  by (simp add: sync_member_pos_def member_writes_def designated_registers_def
      member_values_def split: option.splits)

lemma dispatch_broadcast:
  assumes "takes_target f" and "decode (q_stack c 0) = Some f"
    and "q_stack c 1 = 1" and "q_stack c 3 = 0xFFFFFFFF" and "q_stack c 2 = 4"
    and "q_stack c 4 \<le> 255" and "q_stack c 5 \<le> 255"
    and "q_stack c 6 \<le> 255" and "q_stack c 7 \<le> 255"
  shows "quest_function_dispatch decode now c l =
           (QUEST_FUNC_RET_NO_ERROR,
            member_writes f (q_stack c 4) (clients l 0) @
            member_writes f (q_stack c 5) (clients l 1) @
            member_writes f (q_stack c 6) (clients l 2) @
            member_writes f (q_stack c 7) (clients l 3))"
proof (cases f)
  case QUEST_FUNC_GET_POSITION
  then show ?thesis
    using assms(2) get_client_position_broadcast [OF assms(3-9), of l]
    by (simp add: quest_function_dispatch_def sync_member_pos_is_member_writes)
qed (use assms(1,2) member_query_broadcast [OF assms(3-9)] in
      \<open>simp_all add: quest_function_dispatch_def takes_target_def get_section_id_def
         get_char_class_def get_char_gender_def get_char_race_def get_char_job_def
         get_client_floor_def sync_member_is_member_writes\<close>)

text \<open>
  C9. For every query with a broadcast form, a frame with the right argument count, the
  broadcast target, return count 4 and four register arguments below 256 returns
  \<open>NO_ERROR\<close>, and its register writes are those of member 0, then member 1, member 2 and
  member 3, each into the registers designated for that member; the writes of an absent
  member are \<open>0xFFFFFFFF\<close> into each of its designated registers, whatever the other
  slots hold. In the scenario of the specification (class query, registers 5, 6, 7, 8,
  members in slots 0 and 2 of classes 3 and 7) the writes are 3 to register 5,
  \<open>0xFFFFFFFF\<close> to register 6, 7 to register 7 and \<open>0xFFFFFFFF\<close> to register 8, and the
  register file holds these values afterwards.
\<close>

theorem broadcast_query_writes:
  "(takes_target f \<and> decode (q_stack c 0) = Some f \<and>
    q_stack c 1 = 1 \<and> q_stack c 3 = 0xFFFFFFFF \<and> q_stack c 2 = 4 \<and>
    q_stack c 4 \<le> 255 \<and> q_stack c 5 \<le> 255 \<and> q_stack c 6 \<le> 255 \<and> q_stack c 7 \<le> 255 \<longrightarrow>
      quest_function_dispatch decode now c l =
        (QUEST_FUNC_RET_NO_ERROR,
         member_writes f (q_stack c 4) (clients l 0) @
         member_writes f (q_stack c 5) (clients l 1) @
         member_writes f (q_stack c 6) (clients l 2) @
         member_writes f (q_stack c 7) (clients l 3)) \<and>
      (\<forall>i < 4. clients l i = None \<longrightarrow>
         member_writes f (q_stack c (4 + i)) (clients l i) =
           map (\<lambda>r. (r, 0xFFFFFFFF)) (designated_registers f (q_stack c (4 + i))) \<and>
         (\<forall>r \<in> set (designated_registers f (q_stack c (4 + i))).
            (r, 0xFFFFFFFF) \<in> set (snd (quest_function_dispatch decode now c l))))) \<and>
   (decode 3 = Some QUEST_FUNC_GET_CLASS \<longrightarrow>
      quest_function_dispatch decode now (frame [3, 1, 4, 0xFFFFFFFF, 5, 6, 7, 8]) scenario_lobby =
        (QUEST_FUNC_RET_NO_ERROR, [(5, 3), (6, 0xFFFFFFFF), (7, 7), (8, 0xFFFFFFFF)]) \<and>
      map (registers_after
             (snd (quest_function_dispatch decode now
                     (frame [3, 1, 4, 0xFFFFFFFF, 5, 6, 7, 8]) scenario_lobby)) regs)
          [5, 6, 7, 8] = [3, 0xFFFFFFFF, 7, 0xFFFFFFFF])"
proof (intro conjI impI)
  assume a: "takes_target f \<and> decode (q_stack c 0) = Some f \<and>
    q_stack c 1 = 1 \<and> q_stack c 3 = 0xFFFFFFFF \<and> q_stack c 2 = 4 \<and>
    q_stack c 4 \<le> 255 \<and> q_stack c 5 \<le> 255 \<and> q_stack c 6 \<le> 255 \<and> q_stack c 7 \<le> 255"
  then show eq: "quest_function_dispatch decode now c l =
        (QUEST_FUNC_RET_NO_ERROR,
         member_writes f (q_stack c 4) (clients l 0) @
         member_writes f (q_stack c 5) (clients l 1) @
         member_writes f (q_stack c 6) (clients l 2) @
         member_writes f (q_stack c 7) (clients l 3))"
    using dispatch_broadcast [of f decode c now l] by blast
  show "\<forall>i < 4. clients l i = None \<longrightarrow>
         member_writes f (q_stack c (4 + i)) (clients l i) =
           map (\<lambda>r. (r, 0xFFFFFFFF)) (designated_registers f (q_stack c (4 + i))) \<and>
         (\<forall>r \<in> set (designated_registers f (q_stack c (4 + i))).
            (r, 0xFFFFFFFF) \<in> set (snd (quest_function_dispatch decode now c l)))"
  proof (intro allI impI)
    fix i :: nat
    assume i: "i < 4" and none: "clients l i = None"
    have mw: "member_writes f (q_stack c (4 + i)) (clients l i) =
                map (\<lambda>r. (r, 0xFFFFFFFF)) (designated_registers f (q_stack c (4 + i)))"
      using none by (simp add: member_writes_def)
    from i have "i = 0 \<or> i = 1 \<or> i = 2 \<or> i = 3" by arith
    then have sub: "set (member_writes f (q_stack c (4 + i)) (clients l i))
                    \<subseteq> set (snd (quest_function_dispatch decode now c l))"
      unfolding eq by auto
    have "\<forall>r \<in> set (designated_registers f (q_stack c (4 + i))).
            (r, 0xFFFFFFFF) \<in> set (member_writes f (q_stack c (4 + i)) (clients l i))"
      unfolding mw by simp
    with sub mw show "member_writes f (q_stack c (4 + i)) (clients l i) =
           map (\<lambda>r. (r, 0xFFFFFFFF)) (designated_registers f (q_stack c (4 + i))) \<and>
         (\<forall>r \<in> set (designated_registers f (q_stack c (4 + i))).
            (r, 0xFFFFFFFF) \<in> set (snd (quest_function_dispatch decode now c l)))"
      by blast
  qed
next
  assume d: "decode 3 = Some QUEST_FUNC_GET_CLASS"
  then show s: "quest_function_dispatch decode now (frame [3, 1, 4, 0xFFFFFFFF, 5, 6, 7, 8]) scenario_lobby =
        (QUEST_FUNC_RET_NO_ERROR, [(5, 3), (6, 0xFFFFFFFF), (7, 7), (8, 0xFFFFFFFF)])"
    by (simp add: quest_function_dispatch_def get_char_class_def member_query_def frame_def
        sync_member_def scenario_lobby_def member_of_class_def)
  show "map (registers_after
             (snd (quest_function_dispatch decode now
                     (frame [3, 1, 4, 0xFFFFFFFF, 5, 6, 7, 8]) scenario_lobby)) regs)
          [5, 6, 7, 8] = [3, 0xFFFFFFFF, 7, 0xFFFFFFFF]"
    unfolding s by (simp add: registers_after_def)
qed

theorem broadcast_query_writes_witness:
  "quest_function_dispatch decode_sample 0 (frame [8, 1, 4, 0xFFFFFFFF, 5, 10, 20, 30])
     (scenario_lobby\<lparr>clients := (clients scenario_lobby)(0 := None)\<rparr>)
   = (QUEST_FUNC_RET_NO_ERROR,
      [(5, 0xFFFFFFFF), (6, 0xFFFFFFFF), (7, 0xFFFFFFFF),
       (10, 0xFFFFFFFF), (11, 0xFFFFFFFF), (12, 0xFFFFFFFF),
       (20, 0), (21, 0), (22, 0),
       (30, 0xFFFFFFFF), (31, 0xFFFFFFFF), (32, 0xFFFFFFFF)]) \<and>
   quest_function_dispatch decode_sample 0 (frame [3, 1, 4, 0xFFFFFFFF, 5, 6, 7, 8]) scenario_lobby
   = (QUEST_FUNC_RET_NO_ERROR, [(5, 3), (6, 0xFFFFFFFF), (7, 7), (8, 0xFFFFFFFF)])"
proof -
  let ?c = "frame [8, 1, 4, 0xFFFFFFFF, 5, 10, 20, 30]"
  let ?l = "scenario_lobby\<lparr>clients := (clients scenario_lobby)(0 := None)\<rparr>"
  have h: "takes_target QUEST_FUNC_GET_POSITION \<and>
           decode_sample (q_stack ?c 0) = Some QUEST_FUNC_GET_POSITION \<and>
           q_stack ?c 1 = 1 \<and> q_stack ?c 3 = 0xFFFFFFFF \<and> q_stack ?c 2 = 4 \<and>
           q_stack ?c 4 \<le> 255 \<and> q_stack ?c 5 \<le> 255 \<and> q_stack ?c 6 \<le> 255 \<and> q_stack ?c 7 \<le> 255"
    by (simp add: takes_target_def frame_def decode_sample_def)
  have d: "decode_sample 3 = Some QUEST_FUNC_GET_CLASS" by (simp add: decode_sample_def)
  note t = broadcast_query_writes [where f = QUEST_FUNC_GET_POSITION and decode = decode_sample
      and c = ?c and now = 0 and l = ?l]
  from t h have "quest_function_dispatch decode_sample 0 ?c ?l =
        (QUEST_FUNC_RET_NO_ERROR,
         member_writes QUEST_FUNC_GET_POSITION (q_stack ?c 4) (clients ?l 0) @
         member_writes QUEST_FUNC_GET_POSITION (q_stack ?c 5) (clients ?l 1) @
         member_writes QUEST_FUNC_GET_POSITION (q_stack ?c 6) (clients ?l 2) @
         member_writes QUEST_FUNC_GET_POSITION (q_stack ?c 7) (clients ?l 3))"
    by blast
  then have a: "quest_function_dispatch decode_sample 0 ?c ?l =
     (QUEST_FUNC_RET_NO_ERROR,
      [(5, 0xFFFFFFFF), (6, 0xFFFFFFFF), (7, 0xFFFFFFFF),
       (10, 0xFFFFFFFF), (11, 0xFFFFFFFF), (12, 0xFFFFFFFF),
       (20, 0), (21, 0), (22, 0),
       (30, 0xFFFFFFFF), (31, 0xFFFFFFFF), (32, 0xFFFFFFFF)])"
    by (simp add: frame_def scenario_lobby_def member_of_class_def member_writes_def
        designated_registers_def member_values_def)
  from t d have b: "quest_function_dispatch decode_sample 0
          (frame [3, 1, 4, 0xFFFFFFFF, 5, 6, 7, 8]) scenario_lobby
        = (QUEST_FUNC_RET_NO_ERROR, [(5, 3), (6, 0xFFFFFFFF), (7, 7), (8, 0xFFFFFFFF)])"
    by blast
  from a b show ?thesis by blast
qed

text \<open>
  The registers of a targeted position query: the register argument and the two after it,
  for every register argument that passes the check against 255.
\<close>

lemma get_client_position_targeted_registers:
  assumes "q_stack c 1 = 1" and "q_stack c 3 < 4" and "q_stack c 2 = 1" and "q_stack c 4 \<le> 255"
  shows "fst (get_client_position c l) = QUEST_FUNC_RET_NO_ERROR \<and>
         map fst (snd (get_client_position c l)) =
           [q_stack c 4, q_stack c 4 + 1, q_stack c 4 + 2]"
proof -
  have n: "\<not> 255 < q_stack c 4" using assms(4) by (simp add: not_less)
  have b: "q_stack c 3 \<noteq> 0xFFFFFFFF" using assms(2) by auto
  show ?thesis
    using assms(1-3) n b
    by (simp add: get_client_position_def sync_member_pos_def split: option.splits)
qed

text \<open>
  C1. The position query checks the caller's register arguments against 255 and then
  writes to the two registers after each of them without a further check: for a targeted
  query with register argument 255 the dispatcher returns \<open>NO_ERROR\<close> after calls of
  \<open>send_sync_register\<close> for the register indices 255, 256 and 257.
\<close>

theorem position_query_writes_past_255:
  "quest_function_dispatch decode_sample 0 (frame [8, 1, 1, 0, 255]) empty_lobby =
     (QUEST_FUNC_RET_NO_ERROR, [(255, 0xFFFFFFFF), (256, 0xFFFFFFFF), (257, 0xFFFFFFFF)])"
  by (simp add: quest_function_dispatch_def decode_sample_def frame_def get_client_position_def
      sync_member_pos_def empty_lobby_def)


section \<open>Scripting hooks: properties\<close>

lemma lua_rawgeti_registry:
  "lua_rawgeti L LUA_REGISTRYINDEX n =
     Some (lua_push (case entries (tables L 0) n of Some v \<Rightarrow> v | None \<Rightarrow> LNil) L)"
  by (simp add: lua_rawgeti_def index2table_def)

lemma lua_pop_push: "lua_pop (lua_push v L) (Suc 0) = Some L"
  by (simp add: lua_pop_def lua_push_def)

lemma script_execute_no_handler:
  assumes "scripts_ref st = 0 \<or> script_ids st event = 0"
  shows "script_execute env st event ap = Some (0, st)"
  using assms by (auto simp add: script_execute_def lua_rawgeti_registry lua_pop_push)

lemma script_execute_pkt_no_handler:
  assumes "scripts_ref st = 0 \<or> script_ids st event = 0"
  shows "script_execute_pkt env st event c pkt len = Some (0, st)"
  using assms by (auto simp add: script_execute_pkt_def lua_rawgeti_registry lua_pop_push)

text \<open>
  The two guards of \<open>script_execute\<close> and \<open>script_execute_pkt\<close>: with \<open>scripts_ref\<close>
  zero, or with no reference recorded for the event, both return 0 and leave the whole
  state as it was.
\<close>

lemma execute_guarded_noop:
  "scripts_ref st = 0 \<or> script_ids st event = 0 \<Longrightarrow>
     script_execute env st event ap = Some (0, st) \<and>
     script_execute_pkt env st event c pkt len = Some (0, st)"
  by (simp add: script_execute_no_handler script_execute_pkt_no_handler)

text \<open>
  C6. Counterexample to the claim as stated: with no scripts table loaded, nothing is
  bound to the startup event, and \<open>script_remove\<close> still returns 0.
\<close>

theorem script_remove_unbound_succeeds:
  "script_ids unloaded_state ScriptAction_STARTUP = 0 \<and>
   script_remove unloaded_state ScriptAction_STARTUP = Some (0, unloaded_state)"
  by (simp add: script_remove_def unloaded_state_def)

text \<open>
  C6, amended. With a scripts table loaded, \<open>script_remove\<close> returns \<open>-1\<close>, after a
  warning and with no other change, when no binding is recorded for the event, and it
  does not return \<open>-1\<close> when one is recorded; with no scripts table loaded it returns 0
  and changes nothing.
\<close>

theorem script_remove_result:
  "(scripts_ref st = 0 \<longrightarrow> script_remove st action = Some (0, st)) \<and>
   (scripts_ref st \<noteq> 0 \<and> script_ids st action = 0 \<longrightarrow>
      script_remove st action = Some (- 1, debug DBG_WARN (Msg_unregister_missing action) st)) \<and>
   (scripts_ref st \<noteq> 0 \<and> script_ids st action \<noteq> 0 \<longrightarrow>
      (\<forall>rv st'. script_remove st action = Some (rv, st') \<longrightarrow> rv = 0))"
  by (auto simp add: script_remove_def Option.bind_eq_Some_conv)

theorem script_remove_result_witness:
  "script_remove loaded_state ScriptAction_SHUTDOWN =
     Some (- 1, debug DBG_WARN (Msg_unregister_missing ScriptAction_SHUTDOWN) loaded_state) \<and>
   script_remove unloaded_state ScriptAction_SHUTDOWN = Some (0, unloaded_state) \<and>
   return_value (script_remove (loaded_state\<lparr>lstate := lua_push (LTable 1) (lstate loaded_state)\<rparr>)
                   ScriptAction_STARTUP) = Some 0"
proof -
  have h1: "scripts_ref loaded_state \<noteq> 0 \<and> script_ids loaded_state ScriptAction_SHUTDOWN = 0"
    by (simp add: loaded_state_def)
  have h2: "scripts_ref unloaded_state = 0" by (simp add: unloaded_state_def)
  let ?st = "loaded_state\<lparr>lstate := lua_push (LTable 1) (lstate loaded_state)\<rparr>"
  have h3: "scripts_ref ?st \<noteq> 0 \<and> script_ids ?st ScriptAction_STARTUP \<noteq> 0"
    by (simp add: loaded_state_def)
  have "\<exists>rv st'. script_remove ?st ScriptAction_STARTUP = Some (rv, st')"
    by (simp add: script_remove_def loaded_state_def lua_rawgeti_def index2table_def
        LUA_REGISTRYINDEX_def lua_push_def luaL_unref_def lua_pop_def)
  then obtain rv st' where r: "script_remove ?st ScriptAction_STARTUP = Some (rv, st')" by blast
  with script_remove_result [of ?st ScriptAction_STARTUP] h3 have "rv = 0" by blast
  with r have c: "return_value (script_remove ?st ScriptAction_STARTUP) = Some 0"
    by (simp add: return_value_def)
  from script_remove_result [of loaded_state ScriptAction_SHUTDOWN] h1
    script_remove_result [of unloaded_state ScriptAction_SHUTDOWN] h2 c
  show ?thesis by blast
qed

text \<open>
  What the amended statement leaves open: with a binding recorded and nothing else on the
  interpreter stack, \<open>luaL_unref(lstate, -2, ...)\<close> addresses the slot below the scripts
  table, which does not exist.
\<close>

lemma script_remove_bound_empty_stack:
  "script_remove loaded_state ScriptAction_STARTUP = None"
  by (simp add: script_remove_def loaded_state_def lua_rawgeti_def index2table_def
      LUA_REGISTRYINDEX_def lua_push_def luaL_unref_def)

lemma push_args_known:
  "(\<forall>t. a \<noteq> SCRIPT_ARG_OTHER t) \<Longrightarrow>
     push_args L n (a # as) = push_args (lua_push (arg_value a) L) (n + 1) as"
  by (cases a) simp_all

lemma push_args_stack:
  "push_args L n ap = (L', n', r) \<Longrightarrow>
     \<exists>vs. L' = L\<lparr>stack := vs @ stack L\<rparr> \<and> n' = n + length vs"
proof (induction ap arbitrary: L n)
  case Nil
  then show ?case by auto
next
  case (Cons a as)
  show ?case
  proof (cases "\<exists>t. a = SCRIPT_ARG_OTHER t")
    case True
    then show ?thesis using Cons.prems by auto
  next
    case False
    then have "push_args (lua_push (arg_value a) L) (n + 1) as = (L', n', r)"
      using Cons.prems by (simp add: push_args_known)
    from Cons.IH [OF this] obtain vs where
      "L' = (lua_push (arg_value a) L)\<lparr>stack := vs @ stack (lua_push (arg_value a) L)\<rparr>"
      and "n' = n + 1 + length vs" by auto
    then have "L' = L\<lparr>stack := (vs @ [arg_value a]) @ stack L\<rparr> \<and>
               n' = n + length (vs @ [arg_value a])"
      by (simp add: lua_push_def)
    then show ?thesis by blast
  qed
qed

lemma script_execute_invalid_argtype:
  assumes ref: "scripts_ref st \<noteq> 0"
    and tbl: "entries (tables (lstate st) 0) (scripts_ref st) = Some (LTable a)"
    and bound: "script_ids st event \<noteq> 0"
    and stop: "push_args L2 0 ap = (L3, argcount, Some argtype)"
    and L2: "L2 = lua_push (case entries (tables (lstate st) a) (script_ids st event) of
                              Some v \<Rightarrow> v | None \<Rightarrow> LNil)
                    (lua_push (LTable a) (lstate st))"
  shows "script_execute env st event ap =
           Some (0, debug DBG_WARN (Msg_invalid_argtype argtype)
                      (st\<lparr>lstate := (lstate st)\<lparr>stack := LTable a # stack (lstate st)\<rparr>\<rparr>))"
proof -
  from push_args_stack [OF stop] obtain vs where
    L3: "L3 = L2\<lparr>stack := vs @ stack L2\<rparr>" and n: "argcount = length vs" by auto
  have g1: "lua_rawgeti (lstate st) LUA_REGISTRYINDEX (scripts_ref st)
              = Some (lua_push (LTable a) (lstate st))"
    using tbl by (simp add: lua_rawgeti_registry)
  have g2: "lua_rawgeti (lua_push (LTable a) (lstate st)) (- 1) (script_ids st event) = Some L2"
    by (simp add: L2 lua_rawgeti_def index2table_def LUA_REGISTRYINDEX_def lua_push_def)
  have p1: "lua_pop L3 argcount = Some L2"
    by (simp add: L3 n lua_pop_def)
  have p2: "lua_pop L2 (Suc 0) = Some ((lstate st)\<lparr>stack := LTable a # stack (lstate st)\<rparr>)"
    by (simp add: L2 lua_pop_def lua_push_def)
  show ?thesis
    using ref bound by (simp add: script_execute_def g1 g2 stop p1 p2)
qed

text \<open>
  C8. \<open>script_execute\<close> for the bound startup handler with an integer argument followed by
  an entry of unknown type tag 99: the call returns 0, logs the warning and makes no call
  through \<open>lua_pcall\<close>, but the interpreter stack, empty before the call, holds the
  scripts table afterwards: \<open>lua_pop(lstate, argcount)\<close> removes the arguments, the pop
  at \<open>out\<close> removes the handler, and nothing removes the table.
\<close>

theorem script_execute_invalid_tag_leaves_table:
  "stack (lstate loaded_state) = [] \<and>
   script_execute sample_env loaded_state ScriptAction_STARTUP
       [SCRIPT_ARG_INT 5, SCRIPT_ARG_OTHER 99] =
     Some (0, debug DBG_WARN (Msg_invalid_argtype 99)
                (loaded_state\<lparr>lstate := (lstate loaded_state)\<lparr>stack := [LTable 1]\<rparr>\<rparr>))"
proof -
  have s: "stack (lstate loaded_state) = []" by (simp add: loaded_state_def)
  have "script_execute sample_env loaded_state ScriptAction_STARTUP
          [SCRIPT_ARG_INT 5, SCRIPT_ARG_OTHER 99] =
        Some (0, debug DBG_WARN (Msg_invalid_argtype 99)
                   (loaded_state\<lparr>lstate := (lstate loaded_state)
                                     \<lparr>stack := LTable 1 # stack (lstate loaded_state)\<rparr>\<rparr>))"
    by (rule script_execute_invalid_argtype [where a = 1])
      (simp_all add: loaded_state_def)
  with s show ?thesis by simp
qed

lemma snprintf_realfn_long:
  assumes "55 \<le> length filename"
  shows "snprintf_realfn buf filename 63 = CHR 0x00"
  using assms by (simp add: snprintf_realfn_def Let_def min_def)

lemma snprintf_realfn_short:
  assumes "length filename < 55"
  shows "snprintf_realfn buf filename 63 = buf 63"
  using assms by (simp add: snprintf_realfn_def Let_def min_def)

text \<open>
  C10. \<open>script_add\<close> with a file name of 60 characters, whose prefixed form has 68 and
  does not fit the 64-byte buffer: \<open>snprintf\<close> ends the truncated string with a null
  character in \<open>realfn[63]\<close>, the test \<open>if(realfn[63])\<close> does not fire, and the script
  is loaded under its unprefixed name and bound, with return value 0, whatever the buffer
  held before.
\<close>

theorem script_add_long_filename_accepted:
  "length (''scripts/'' @ replicate 60 (CHR ''a'')) = 68 \<and>
   bound_handler loaded_state ScriptAction_SHUTDOWN = None \<and>
   return_value (script_add sample_env buf loaded_state ScriptAction_SHUTDOWN
                   (replicate 60 (CHR ''a''))) = Some 0 \<and>
   handler_after (script_add sample_env buf loaded_state ScriptAction_SHUTDOWN
                    (replicate 60 (CHR ''a''))) ScriptAction_SHUTDOWN = Some (LFunction 8)"
proof -
  have nul: "snprintf_realfn buf (replicate 60 (CHR ''a'')) 63 = CHR 0x00"
    by (rule snprintf_realfn_long) simp
  have "length (replicate 60 (CHR ''a'')) \<noteq> length ''login.lua''" by simp
  then have "replicate 60 (CHR ''a'') \<noteq> ''login.lua''" by metis
  then have ld: "load_result sample_env (replicate 60 (CHR ''a'')) = Inr 8"
    by (simp add: sample_env_def)
  have "script_add sample_env buf loaded_state ScriptAction_SHUTDOWN (replicate 60 (CHR ''a''))
        = Some (0, debug DBG_LOG (Msg_added ScriptAction_SHUTDOWN 2)
                     (loaded_state\<lparr>script_ids := (script_ids loaded_state)(ScriptAction_SHUTDOWN := 2),
                                   lstate := (lstate loaded_state)\<lparr>tables :=
                                      (tables (lstate loaded_state))(1 :=
                                         \<lparr>entries = (entries (tables (lstate loaded_state) 1))(2 \<mapsto> LFunction 8),
                                          free_refs = [], last_ref = 2\<rparr>)\<rparr>\<rparr>))"
    unfolding script_add_def Let_def nul
    by (simp add: ld loaded_state_def lua_rawgeti_def index2table_def LUA_REGISTRYINDEX_def
        lua_push_def luaL_loadfile_def luaL_ref_def lua_pop_def)
  then show ?thesis
    by (simp add: return_value_def handler_after_def bound_handler_def debug_def loaded_state_def)
qed


lemma push_args_all_known:
  "\<forall>x \<in> set ap. arg_known x \<Longrightarrow>
     push_args L n ap = (L\<lparr>stack := rev (map arg_value ap) @ stack L\<rparr>, n + length ap, None)"
proof (induction ap arbitrary: L n)
  case Nil
  then show ?case by simp
next
  case (Cons a as)
  then have "\<forall>t. a \<noteq> SCRIPT_ARG_OTHER t" by (auto simp add: arg_known_def)
  then have "push_args L n (a # as) = push_args (lua_push (arg_value a) L) (n + 1) as"
    by (rule push_args_known)
  also have "\<dots> = ((lua_push (arg_value a) L)
                      \<lparr>stack := rev (map arg_value as) @ stack (lua_push (arg_value a) L)\<rparr>,
                    n + 1 + length as, None)"
    using Cons by simp
  finally show ?case by (simp add: lua_push_def)
qed

lemma lua_pcall_records:
  assumes "stack L = rev args @ f # rest" and "nargs = length args"
  shows "\<exists>ok v. lua_pcall env L nargs =
           Some (ok, L\<lparr>pcalls := pcalls L @ [(f, args)], stack := v # rest\<rparr>)"
proof -
  have a: "rev (take nargs (stack L)) = args" using assms by simp
  have b: "stack L ! nargs = f" using assms by (simp add: nth_append)
  have c: "drop (nargs + 1) (stack L) = rest" using assms by simp
  have d: "\<not> length (stack L) < nargs + 1" using assms by simp
  show ?thesis
    unfolding lua_pcall_def Let_def a b c using d
    by (auto split: lua_value.splits sum.splits)
qed

lemma call_handler_records:
  assumes "stack L = rev args @ f # tbl # rest" and "argcount = length args"
  shows "\<exists>rv st'. call_handler env st event L argcount = Some (rv, st') \<and>
           lstate st' = L\<lparr>pcalls := pcalls L @ [(f, args)], stack := rest\<rparr> \<and>
           script_ids st' = script_ids st \<and> scripts_ref st' = scripts_ref st"
proof -
  from lua_pcall_records [OF assms, of env] obtain ok v where
    pc: "lua_pcall env L argcount =
           Some (ok, L\<lparr>pcalls := pcalls L @ [(f, args)], stack := v # tbl # rest\<rparr>)"
    by blast
  let ?L1 = "L\<lparr>pcalls := pcalls L @ [(f, args)], stack := v # tbl # rest\<rparr>"
  have p1: "lua_pop ?L1 (Suc 0) = Some (L\<lparr>pcalls := pcalls L @ [(f, args)], stack := tbl # rest\<rparr>)"
    by (simp add: lua_pop_def)
  have p2: "lua_pop (L\<lparr>pcalls := pcalls L @ [(f, args)], stack := tbl # rest\<rparr>) (Suc 0)
            = Some (L\<lparr>pcalls := pcalls L @ [(f, args)], stack := rest\<rparr>)"
    by (simp add: lua_pop_def)
  have "\<exists>i b. lua_tointegerx env ?L1 = Some (i, b)"
    by (cases v) (auto simp add: lua_tointegerx_def split: option.splits)
  then obtain i b where ti: "lua_tointegerx env ?L1 = Some (i, b)" by blast
  show ?thesis
    by (cases ok) (simp_all add: call_handler_def pc p1 p2 ti debug_def)
qed

lemma script_execute_calls_handler:
  assumes "scripts_ref st \<noteq> 0"
    and "entries (tables (lstate st) 0) (scripts_ref st) = Some (LTable a)"
    and "script_ids st event \<noteq> 0"
    and "\<forall>x \<in> set ap. arg_known x"
  shows "\<exists>rv st'. script_execute env st event ap = Some (rv, st') \<and>
           lstate st' = (lstate st)\<lparr>pcalls := pcalls (lstate st) @
             [(case entries (tables (lstate st) a) (script_ids st event) of
                 Some v \<Rightarrow> v | None \<Rightarrow> LNil, map arg_value ap)]\<rparr>"
proof -
  let ?h = "case entries (tables (lstate st) a) (script_ids st event) of
              Some v \<Rightarrow> v | None \<Rightarrow> LNil"
  let ?L2 = "lua_push ?h (lua_push (LTable a) (lstate st))"
  let ?L3 = "?L2\<lparr>stack := rev (map arg_value ap) @ stack ?L2\<rparr>"
  have g1: "lua_rawgeti (lstate st) LUA_REGISTRYINDEX (scripts_ref st)
              = Some (lua_push (LTable a) (lstate st))"
    using assms(2) by (simp add: lua_rawgeti_registry)
  have g2: "lua_rawgeti (lua_push (LTable a) (lstate st)) (- 1) (script_ids st event) = Some ?L2"
    by (simp add: lua_rawgeti_def index2table_def LUA_REGISTRYINDEX_def lua_push_def)
  have pa: "push_args ?L2 0 ap = (?L3, length ap, None)"
    using push_args_all_known [OF assms(4), of ?L2 0] by simp
  have st3: "stack ?L3 = rev (map arg_value ap) @ ?h # LTable a # stack (lstate st)"
    by (simp add: lua_push_def)
  from call_handler_records [OF st3, of "length ap" env st event]
  obtain rv st' where ch: "call_handler env st event ?L3 (length ap) = Some (rv, st')"
    and ls: "lstate st' = ?L3\<lparr>pcalls := pcalls ?L3 @ [(?h, map arg_value ap)],
                               stack := stack (lstate st)\<rparr>"
    by auto
  have "script_execute env st event ap = Some (rv, st')"
    using assms(1,3) by (simp add: script_execute_def g1 g2 pa ch)
  moreover have "lstate st' = (lstate st)\<lparr>pcalls := pcalls (lstate st) @ [(?h, map arg_value ap)]\<rparr>"
    using ls by (simp add: lua_push_def)
  ultimately show ?thesis by blast
qed

lemma neq_replicate_60:
  "length s \<noteq> 60 \<Longrightarrow> s \<noteq> replicate 60 c"
  by auto

lemma script_add_load_failure:
  assumes "scripts_ref st \<noteq> 0" and "load_result env filename = Inl msg"
  shows "\<exists>st'. script_add env buf st action filename = Some (- 1, st') \<and>
           script_ids st' = script_ids st \<and> scripts_ref st' = scripts_ref st \<and>
           tables (lstate st') = tables (lstate st) \<and>
           pcalls (lstate st') = pcalls (lstate st)"
proof (cases "snprintf_realfn buf filename 63 = CHR 0x00")
  case False
  then have "script_add env buf st action filename = Some (- 1, debug DBG_WARN Msg_long_filename st)"
    using assms(1) by (simp add: script_add_def Let_def)
  then show ?thesis by (simp add: debug_def)
next
  case True
  let ?L1 = "lua_push (case entries (tables (lstate st) 0) (scripts_ref st) of
                         Some v \<Rightarrow> v | None \<Rightarrow> LNil) (lstate st)"
  have lf: "luaL_loadfile env ?L1 filename = (False, lua_push (LString msg) ?L1)"
    using assms(2) by (simp add: luaL_loadfile_def)
  have "script_add env buf st action filename =
          Some (- 1, debug DBG_WARN (Msg_load_failed filename) (st\<lparr>lstate := ?L1\<rparr>))"
    using assms(1) True
    by (simp add: script_add_def Let_def lua_rawgeti_registry lf lua_pop_push)
  then show ?thesis by (simp add: debug_def lua_push_def)
qed

lemma bound_handler_cong:
  assumes "script_ids st' = script_ids st" and "scripts_ref st' = scripts_ref st"
    and "tables (lstate st') = tables (lstate st)"
  shows "bound_handler st' event = bound_handler st event"
  using assms by (simp add: bound_handler_def split: option.splits lua_value.splits)

lemma index2table_second:
  "stack L = v # LTable a # rest \<Longrightarrow> index2table L (- 2) = Some a"
  by (simp add: index2table_def LUA_REGISTRYINDEX_def)

lemma script_add_replaces:
  assumes ref: "scripts_ref st \<noteq> 0"
    and nul: "snprintf_realfn buf filename 63 = CHR 0x00"
    and ld: "load_result env filename = Inr k"
    and tbl: "entries (tables (lstate st) 0) (scripts_ref st) = Some (LTable a)"
    and a: "a \<noteq> 0"
    and bound: "0 < script_ids st action"
  shows "\<exists>st'. script_add env buf st action filename = Some (0, st') \<and>
           dbg_log st' = dbg_log st @ [(DBG_WARN, Msg_redefining action),
                                       (DBG_LOG, Msg_added action (script_ids st action))] \<and>
           scripts_ref st' = scripts_ref st \<and>
           script_ids st' = script_ids st \<and>
           stack (lstate st') = stack (lstate st) \<and>
           pcalls (lstate st') = pcalls (lstate st) \<and>
           entries (tables (lstate st') 0) (scripts_ref st) = Some (LTable a) \<and>
           entries (tables (lstate st') a) (script_ids st action) = Some (LFunction k)"
proof -
  let ?id = "script_ids st action"
  let ?L = "lstate st"
  let ?t = "tables ?L a"
  let ?L1 = "lua_push (LTable a) ?L"
  let ?L2 = "lua_push (LFunction k) ?L1"
  let ?t3 = "?t\<lparr>entries := (entries ?t)(?id := None), free_refs := ?id # free_refs ?t\<rparr>"
  let ?L3 = "?L2\<lparr>tables := (tables ?L2)(a := ?t3)\<rparr>"
  let ?t4 = "?t3\<lparr>free_refs := free_refs ?t, entries := (entries ?t3)(?id \<mapsto> LFunction k)\<rparr>"
  let ?L4 = "?L3\<lparr>stack := LTable a # stack ?L, tables := (tables ?L3)(a := ?t4)\<rparr>"
  let ?L5 = "?L4\<lparr>stack := stack ?L\<rparr>"
  have nz: "?id \<noteq> 0" "\<not> ?id < 0" using bound by simp_all
  have g1: "lua_rawgeti ?L LUA_REGISTRYINDEX (scripts_ref st) = Some ?L1"
    using tbl by (simp add: lua_rawgeti_registry)
  have lf: "luaL_loadfile env ?L1 filename = (True, ?L2)"
    using ld by (simp add: luaL_loadfile_def)
  have s2: "stack ?L2 = LFunction k # LTable a # stack ?L" by (simp add: lua_push_def)
  have s3: "stack ?L3 = LFunction k # LTable a # stack ?L" by (simp add: lua_push_def)
  have t2: "tables ?L2 a = ?t" by (simp add: lua_push_def)
  have t3: "tables ?L3 a = ?t3" by simp
  have un: "luaL_unref ?L2 (- 2) ?id = Some ?L3"
    using nz by (simp add: luaL_unref_def index2table_second [OF s2] Let_def t2)
  have rf: "luaL_ref ?L3 (- 2) = Some (?id, ?L4)"
    by (simp add: luaL_ref_def s3 index2table_second [OF s3] Let_def)
  have pp: "lua_pop ?L4 1 = Some ?L5"
    by (simp add: lua_pop_def)
  have "script_add env buf st action filename =
          Some (0, debug DBG_LOG (Msg_added action ?id)
                     ((debug DBG_WARN (Msg_redefining action) st)
                        \<lparr>script_ids := (script_ids (debug DBG_WARN (Msg_redefining action) st))
                                         (action := ?id),
                         lstate := ?L5\<rparr>))"
    using ref nz
    by (simp only: script_add_def Let_def nul g1 lf un rf pp if_False if_True simp_thms
        Option.bind.simps prod.case)
  then show ?thesis
    using a by (simp add: debug_def lua_push_def fun_upd_idem tbl)
qed

text \<open>
  \<open>script_add\<close> past its test of \<open>realfn[63]\<close>. If the script cannot be loaded, the
  call returns \<open>-1\<close> and every binding is as before, whatever the test says. If the test
  passes and the load succeeds while a positive reference is recorded for the event, the
  call returns 0, logs the redefinition warning, and the new function is the handler of
  the event: a later \<open>script_execute\<close> for the event calls the new function, once.
\<close>

lemma script_add_outcomes:
  "(scripts_ref st \<noteq> 0 \<and> load_result env filename = Inl msg \<longrightarrow>
      (\<exists>st'. script_add env buf st action filename = Some (- 1, st') \<and>
         (\<forall>event. bound_handler st' event = bound_handler st event) \<and>
         script_ids st' = script_ids st \<and> tables (lstate st') = tables (lstate st))) \<and>
   (scripts_ref st \<noteq> 0 \<and> entries (tables (lstate st) 0) (scripts_ref st) = Some (LTable a) \<and>
    a \<noteq> 0 \<and> 0 < script_ids st action \<and>
    snprintf_realfn buf filename 63 = CHR 0x00 \<and> load_result env filename = Inr k \<longrightarrow>
      (\<exists>st'. script_add env buf st action filename = Some (0, st') \<and>
         (DBG_WARN, Msg_redefining action) \<in> set (dbg_log st') \<and>
         bound_handler st' action = Some (LFunction k) \<and>
         (\<forall>ap. (\<forall>x \<in> set ap. arg_known x) \<longrightarrow>
            pcalls_after (script_execute env st' action ap) =
              Some (pcalls (lstate st) @ [(LFunction k, map arg_value ap)]))))"
proof (intro conjI impI)
  assume h: "scripts_ref st \<noteq> 0 \<and> load_result env filename = Inl msg"
  then have h1: "scripts_ref st \<noteq> 0" and h2: "load_result env filename = Inl msg"
    by simp_all
  from script_add_load_failure [OF h1 h2, of buf action]
  obtain st' where r: "script_add env buf st action filename = Some (- 1, st')"
    and e1: "script_ids st' = script_ids st" and e2: "scripts_ref st' = scripts_ref st"
    and e3: "tables (lstate st') = tables (lstate st)"
    by (elim exE conjE)
  have "\<forall>event. bound_handler st' event = bound_handler st event"
    using bound_handler_cong [OF e1 e2 e3] by simp
  with r e1 e3 show "\<exists>st'. script_add env buf st action filename = Some (- 1, st') \<and>
         (\<forall>event. bound_handler st' event = bound_handler st event) \<and>
         script_ids st' = script_ids st \<and> tables (lstate st') = tables (lstate st)"
    by (intro exI [of _ st'] conjI)
next
  assume h: "scripts_ref st \<noteq> 0 \<and> entries (tables (lstate st) 0) (scripts_ref st) = Some (LTable a) \<and>
    a \<noteq> 0 \<and> 0 < script_ids st action \<and>
    snprintf_realfn buf filename 63 = CHR 0x00 \<and> load_result env filename = Inr k"
  then have h1: "scripts_ref st \<noteq> 0"
    and h2: "entries (tables (lstate st) 0) (scripts_ref st) = Some (LTable a)"
    and h3: "a \<noteq> 0" and h4: "0 < script_ids st action"
    and h5: "snprintf_realfn buf filename 63 = CHR 0x00"
    and h6: "load_result env filename = Inr k"
    by simp_all
  from script_add_replaces [OF h1 h5 h6 h2 h3 h4]
  obtain st' where r: "script_add env buf st action filename = Some (0, st')"
    and lg: "dbg_log st' = dbg_log st @ [(DBG_WARN, Msg_redefining action),
                                         (DBG_LOG, Msg_added action (script_ids st action))]"
    and sr: "scripts_ref st' = scripts_ref st"
    and si: "script_ids st' = script_ids st"
    and pc: "pcalls (lstate st') = pcalls (lstate st)"
    and t0: "entries (tables (lstate st') 0) (scripts_ref st) = Some (LTable a)"
    and ta: "entries (tables (lstate st') a) (script_ids st action) = Some (LFunction k)"
    by (elim exE conjE)
  have w: "(DBG_WARN, Msg_redefining action) \<in> set (dbg_log st')" unfolding lg by simp
  have n1: "scripts_ref st' \<noteq> 0" using h1 sr by simp
  have n2: "entries (tables (lstate st') 0) (scripts_ref st') = Some (LTable a)"
    using t0 sr by simp
  have n3: "script_ids st' action \<noteq> 0" using h4 si by simp
  have n4: "entries (tables (lstate st') a) (script_ids st' action) = Some (LFunction k)"
    using ta si by simp
  have bh: "bound_handler st' action = Some (LFunction k)"
    using n1 n2 n3 n4 by (simp add: bound_handler_def)
  have ex: "\<forall>ap. (\<forall>x \<in> set ap. arg_known x) \<longrightarrow>
            pcalls_after (script_execute env st' action ap) =
              Some (pcalls (lstate st) @ [(LFunction k, map arg_value ap)])"
  proof (intro allI impI)
    fix ap assume k: "\<forall>x \<in> set ap. arg_known x"
    from script_execute_calls_handler [OF n1 n2 n3 k, of env]
    obtain rv st'' where x: "script_execute env st' action ap = Some (rv, st'')"
      and y: "lstate st'' = (lstate st')\<lparr>pcalls := pcalls (lstate st') @
             [(case entries (tables (lstate st') a) (script_ids st' action) of
                 Some v \<Rightarrow> v | None \<Rightarrow> LNil, map arg_value ap)]\<rparr>"
      by (elim exE conjE)
    have "pcalls (lstate st'') = pcalls (lstate st) @ [(LFunction k, map arg_value ap)]"
      unfolding y n4 by (simp add: pc)
    then show "pcalls_after (script_execute env st' action ap) =
              Some (pcalls (lstate st) @ [(LFunction k, map arg_value ap)])"
      unfolding x by (simp add: pcalls_after_def)
  qed
  from r w bh ex show "\<exists>st'. script_add env buf st action filename = Some (0, st') \<and>
         (DBG_WARN, Msg_redefining action) \<in> set (dbg_log st') \<and>
         bound_handler st' action = Some (LFunction k) \<and>
         (\<forall>ap. (\<forall>x \<in> set ap. arg_known x) \<longrightarrow>
            pcalls_after (script_execute env st' action ap) =
              Some (pcalls (lstate st) @ [(LFunction k, map arg_value ap)]))"
    by (intro exI [of _ st'] conjI)
qed

lemma script_add_outcomes_example:
  "return_value (script_add sample_env (\<lambda>i. CHR 0x00) loaded_state ScriptAction_STARTUP ''missing.lua'')
     = Some (- 1) \<and>
   handler_after (script_add sample_env (\<lambda>i. CHR 0x00) loaded_state ScriptAction_STARTUP ''missing.lua'')
     ScriptAction_STARTUP = Some (LFunction 5) \<and>
   return_value (script_add sample_env (\<lambda>i. CHR 0x00) loaded_state ScriptAction_STARTUP ''login.lua'')
     = Some 0 \<and>
   handler_after (script_add sample_env (\<lambda>i. CHR 0x00) loaded_state ScriptAction_STARTUP ''login.lua'')
     ScriptAction_STARTUP = Some (LFunction 7) \<and>
   pcalls_after (execute_after sample_env
       (script_add sample_env (\<lambda>i. CHR 0x00) loaded_state ScriptAction_STARTUP ''login.lua'')
       ScriptAction_STARTUP [SCRIPT_ARG_INT 4]) = Some [(LFunction 7, [LInteger 4])]"
proof -
  let ?buf = "\<lambda>i::nat. CHR 0x00"
  have h1: "scripts_ref loaded_state \<noteq> 0 \<and> load_result sample_env ''missing.lua'' = Inl ''cannot open''"
    by (simp add: loaded_state_def sample_env_def neq_replicate_60)
  have h2: "scripts_ref loaded_state \<noteq> 0 \<and>
            entries (tables (lstate loaded_state) 0) (scripts_ref loaded_state) = Some (LTable 1) \<and>
            (1::nat) \<noteq> 0 \<and> 0 < script_ids loaded_state ScriptAction_STARTUP \<and>
            snprintf_realfn ?buf ''login.lua'' 63 = CHR 0x00 \<and>
            load_result sample_env ''login.lua'' = Inr 7"
    by (simp add: loaded_state_def sample_env_def snprintf_realfn_short)
  have h3: "bound_handler loaded_state ScriptAction_STARTUP = Some (LFunction 5)"
    by (simp add: bound_handler_def loaded_state_def)
  have h4: "\<forall>x \<in> set [SCRIPT_ARG_INT 4]. arg_known x" by (simp add: arg_known_def)
  have h5: "pcalls (lstate loaded_state) = []" by (simp add: loaded_state_def)
  note t1 = script_add_outcomes [where st = loaded_state and env = sample_env
      and filename = "''missing.lua''" and msg = "''cannot open''" and buf = ?buf
      and action = ScriptAction_STARTUP and a = 1 and k = 0, THEN conjunct1, rule_format, OF h1]
  note t2 = script_add_outcomes [where st = loaded_state and env = sample_env
      and filename = "''login.lua''" and msg = "[]" and buf = ?buf
      and action = ScriptAction_STARTUP and a = 1 and k = 7, THEN conjunct2, rule_format, OF h2]
  from t1 obtain st1 where
    r1: "script_add sample_env ?buf loaded_state ScriptAction_STARTUP ''missing.lua'' = Some (- 1, st1)"
    and b1: "\<forall>event. bound_handler st1 event = bound_handler loaded_state event"
    by (elim exE conjE)
  from t2 obtain st2 where
    r2: "script_add sample_env ?buf loaded_state ScriptAction_STARTUP ''login.lua'' = Some (0, st2)"
    and b2: "bound_handler st2 ScriptAction_STARTUP = Some (LFunction 7)"
    and e2: "\<forall>ap. (\<forall>x \<in> set ap. arg_known x) \<longrightarrow>
            pcalls_after (script_execute sample_env st2 ScriptAction_STARTUP ap) =
              Some (pcalls (lstate loaded_state) @ [(LFunction 7, map arg_value ap)])"
    by (elim exE conjE)
  from e2 [THEN spec, of "[SCRIPT_ARG_INT 4]", THEN mp, OF h4]
  have e3: "pcalls_after (script_execute sample_env st2 ScriptAction_STARTUP [SCRIPT_ARG_INT 4])
              = Some [(LFunction 7, [LInteger 4])]"
    unfolding h5 by simp
  have c1: "handler_after (Some (- 1, st1)) ScriptAction_STARTUP = Some (LFunction 5)"
    using b1 h3 by (simp add: handler_after_def)
  have c2: "handler_after (Some (0, st2)) ScriptAction_STARTUP = Some (LFunction 7)"
    using b2 by (simp add: handler_after_def)
  have c3: "execute_after sample_env (Some (0, st2)) ScriptAction_STARTUP [SCRIPT_ARG_INT 4]
              = script_execute sample_env st2 ScriptAction_STARTUP [SCRIPT_ARG_INT 4]"
    by (simp add: execute_after_def)
  show ?thesis
    unfolding r1 r2 c1 c2 c3 e3 by (simp add: return_value_def)
qed

lemma luaL_unref_registry:
  "luaL_unref L LUA_REGISTRYINDEX ref =
     Some (if ref < 0 then L
           else L\<lparr>tables := (tables L)(0 :=
                   (tables L 0)\<lparr>entries := (entries (tables L 0))(ref := None),
                                free_refs := ref # free_refs (tables L 0)\<rparr>)\<rparr>)"
  by (simp add: luaL_unref_def index2table_def Let_def)

text \<open>The state in which \<open>script_eventlist_read\<close> reaches its error exits.\<close>

lemma script_eventlist_read_invalid:
  assumes "structurally_invalid env fn"
  shows "\<exists>rv. rv \<in> {- 5, - 4, - 3, - 2, - 1} \<and>
           (\<exists>msg lvl. script_eventlist_read env st fn =
              Some (rv, debug lvl msg
                   (st\<lparr>lstate := (if scripts_ref st \<le> 0 then lstate st
                          else (lstate st)\<lparr>tables := (tables (lstate st))(0 :=
                                 (tables (lstate st) 0)
                                   \<lparr>entries := (entries (tables (lstate st) 0))(scripts_ref st := None),
                                    free_refs := scripts_ref st # free_refs (tables (lstate st) 0)\<rparr>)\<rparr>)\<rparr>)))"
proof -
  let ?L0 = "if scripts_ref st \<le> 0 then lstate st
             else (lstate st)\<lparr>tables := (tables (lstate st))(0 :=
                    (tables (lstate st) 0)
                      \<lparr>entries := (entries (tables (lstate st) 0))(scripts_ref st := None),
                       free_refs := scripts_ref st # free_refs (tables (lstate st) 0)\<rparr>)\<rparr>"
  have u: "(if scripts_ref st \<noteq> 0
            then luaL_unref (lstate st) LUA_REGISTRYINDEX (scripts_ref st)
            else Some (lstate st)) = Some ?L0"
    by (auto simp add: luaL_unref_registry)
  show ?thesis
  proof (cases "xmlNewParserCtxt_ok env")
    case False
    then have "script_eventlist_read env st fn =
                 Some (- 1, debug DBG_ERROR Msg_no_xml_context (st\<lparr>lstate := ?L0\<rparr>))"
      unfolding script_eventlist_read_def u by (simp add: Let_def)
    then show ?thesis by blast
  next
    case ok: True
    show ?thesis
    proof (cases "xmlReadFile env fn")
      case None
      then have "script_eventlist_read env st fn =
                   Some (- 2, debug DBG_ERROR Msg_parse_error (st\<lparr>lstate := ?L0\<rparr>))"
        unfolding script_eventlist_read_def u using ok by (simp add: Let_def)
      then show ?thesis by blast
    next
      case (Some doc)
      obtain root where doc: "doc = XmlDoc root" by (cases doc)
      show ?thesis
      proof (cases "cxt_valid env")
        case False
        then have "script_eventlist_read env st fn =
                     Some (- 3, debug DBG_ERROR Msg_validity_error (st\<lparr>lstate := ?L0\<rparr>))"
          unfolding script_eventlist_read_def u using ok Some doc by (simp add: Let_def)
        then show ?thesis by blast
      next
        case valid: True
        show ?thesis
        proof (cases root)
          case None
          then have "script_eventlist_read env st fn =
                       Some (- 4, debug DBG_WARN Msg_empty_document (st\<lparr>lstate := ?L0\<rparr>))"
            unfolding script_eventlist_read_def u using ok Some doc valid by (simp add: Let_def)
          then show ?thesis by blast
        next
          case (Some r)
          obtain rname children where r: "r = (rname, children)" by (cases r)
          have "rname \<noteq> ''scripts''"
            using assms ok \<open>xmlReadFile env fn = Some doc\<close> doc valid Some r
            by (simp add: structurally_invalid_def)
          then have "script_eventlist_read env st fn =
                       Some (- 5, debug DBG_WARN Msg_wrong_root (st\<lparr>lstate := ?L0\<rparr>))"
            unfolding script_eventlist_read_def u
            using ok \<open>xmlReadFile env fn = Some doc\<close> doc valid Some r by (simp add: Let_def)
          then show ?thesis by blast
        qed
      qed
    qed
  qed
qed

text \<open>
  C2. Counterexample to the claim as stated: the declaration file cannot be read, the
  reload returns \<open>-2\<close>, and the startup handler that was bound before the reload is no
  longer found afterwards; a later \<open>script_execute\<close> for the event, which called the
  handler before, now hands a non-table to \<open>lua_rawgeti\<close>.
\<close>

theorem failed_reload_loses_bindings:
  "structurally_invalid sample_env ''scripts.xml'' \<and>
   bound_handler loaded_state ScriptAction_STARTUP = Some (LFunction 5) \<and>
   pcalls_after (script_execute sample_env loaded_state ScriptAction_STARTUP []) =
     Some [(LFunction 5, [])] \<and>
   return_value (script_eventlist_read sample_env loaded_state ''scripts.xml'') = Some (- 2) \<and>
   handler_after (script_eventlist_read sample_env loaded_state ''scripts.xml'')
     ScriptAction_STARTUP = None \<and>
   execute_after sample_env (script_eventlist_read sample_env loaded_state ''scripts.xml'')
     ScriptAction_STARTUP [] = None"
proof -
  have a: "structurally_invalid sample_env ''scripts.xml''"
    by (simp add: structurally_invalid_def sample_env_def)
  have b: "bound_handler loaded_state ScriptAction_STARTUP = Some (LFunction 5)"
    by (simp add: bound_handler_def loaded_state_def)
  have c: "pcalls_after (script_execute sample_env loaded_state ScriptAction_STARTUP []) =
             Some [(LFunction 5, [])]"
    by (simp add: pcalls_after_def script_execute_def call_handler_def loaded_state_def
        sample_env_def lua_rawgeti_def index2table_def LUA_REGISTRYINDEX_def lua_push_def
        lua_pcall_def lua_tointegerx_def lua_pop_def Let_def)
  let ?st' = "debug DBG_ERROR Msg_parse_error
                (loaded_state\<lparr>lstate := (lstate loaded_state)\<lparr>tables := (tables (lstate loaded_state))(0 :=
                    (tables (lstate loaded_state) 0)
                      \<lparr>entries := (entries (tables (lstate loaded_state) 0))(3 := None),
                       free_refs := 3 # free_refs (tables (lstate loaded_state) 0)\<rparr>)\<rparr>\<rparr>)"
  have r: "script_eventlist_read sample_env loaded_state ''scripts.xml'' = Some (- 2, ?st')"
    by (simp add: script_eventlist_read_def luaL_unref_registry Let_def sample_env_def
        loaded_state_def)
  have d: "bound_handler ?st' ScriptAction_STARTUP = None"
    by (simp add: bound_handler_def debug_def loaded_state_def)
  have e: "script_execute sample_env ?st' ScriptAction_STARTUP [] = None"
    by (simp add: script_execute_def debug_def loaded_state_def lua_rawgeti_def index2table_def
        LUA_REGISTRYINDEX_def lua_push_def)
  show ?thesis
    unfolding r using a b c d e
    by (simp add: return_value_def handler_after_def execute_after_def)
qed

text \<open>
  C2, amended. If the declaration document is structurally invalid (no parser context,
  the file cannot be read or parsed, the validity flag is clear, no root element, or a root
  element not named \<open>scripts\<close>), \<open>script_eventlist_read\<close> returns one of the codes
  \<open>-1\<close> to \<open>-5\<close>, creates no table, pushes nothing and calls no handler. With no
  scripts table loaded before, the interpreter state is left as it was and the registry
  stays unloaded. A scripts table loaded before has already been released from the Lua
  registry when the document is opened, so that no handler is bound after the failed
  reload.
\<close>

theorem failed_reload_result:
  "structurally_invalid env fn \<Longrightarrow>
     (\<exists>rv st'. script_eventlist_read env st fn = Some (rv, st') \<and>
        rv \<noteq> 0 \<and> - 5 \<le> rv \<and> rv \<le> - 1 \<and>
        stack (lstate st') = stack (lstate st) \<and>
        table_count (lstate st') = table_count (lstate st) \<and>
        pcalls (lstate st') = pcalls (lstate st) \<and>
        (scripts_ref st = 0 \<longrightarrow>
           lstate st' = lstate st \<and> scripts_ref st' = 0 \<and>
           (\<forall>event. bound_handler st' event = bound_handler st event)) \<and>
        (0 < scripts_ref st \<longrightarrow>
           entries (tables (lstate st') 0) (scripts_ref st) = None \<and>
           (\<forall>event. bound_handler st' event = None)))"
proof -
  assume inv: "structurally_invalid env fn"
  from script_eventlist_read_invalid [OF inv, of st]
  obtain rv msg lvl where rv: "rv \<in> {- 5, - 4, - 3, - 2, - 1}"
    and r: "script_eventlist_read env st fn =
              Some (rv, debug lvl msg
                   (st\<lparr>lstate := (if scripts_ref st \<le> 0 then lstate st
                          else (lstate st)\<lparr>tables := (tables (lstate st))(0 :=
                                 (tables (lstate st) 0)
                                   \<lparr>entries := (entries (tables (lstate st) 0))(scripts_ref st := None),
                                    free_refs := scripts_ref st # free_refs (tables (lstate st) 0)\<rparr>)\<rparr>)\<rparr>))"
    by (elim exE conjE)
  let ?st' = "debug lvl msg
                   (st\<lparr>lstate := (if scripts_ref st \<le> 0 then lstate st
                          else (lstate st)\<lparr>tables := (tables (lstate st))(0 :=
                                 (tables (lstate st) 0)
                                   \<lparr>entries := (entries (tables (lstate st) 0))(scripts_ref st := None),
                                    free_refs := scripts_ref st # free_refs (tables (lstate st) 0)\<rparr>)\<rparr>)\<rparr>)"
  have c1: "rv \<noteq> 0 \<and> - 5 \<le> rv \<and> rv \<le> - 1" using rv by auto
  have c2: "stack (lstate ?st') = stack (lstate st)"
    "table_count (lstate ?st') = table_count (lstate st)"
    "pcalls (lstate ?st') = pcalls (lstate st)"
    by (simp_all add: debug_def)
  have c4: "scripts_ref st = 0 \<longrightarrow>
              lstate ?st' = lstate st \<and> scripts_ref ?st' = 0 \<and>
              (\<forall>event. bound_handler ?st' event = bound_handler st event)"
    by (simp add: debug_def bound_handler_def)
  have c5: "0 < scripts_ref st \<longrightarrow>
              entries (tables (lstate ?st') 0) (scripts_ref st) = None \<and>
              (\<forall>event. bound_handler ?st' event = None)"
    by (simp add: debug_def bound_handler_def)
  from r c1 c2 c4 c5 show ?thesis
    by (intro exI [of _ rv] exI [of _ ?st'] conjI) simp_all
qed

theorem failed_reload_result_witness:
  "return_value (script_eventlist_read sample_env loaded_state ''scripts.xml'') = Some (- 2) \<and>
   handler_after (script_eventlist_read sample_env loaded_state ''scripts.xml'')
     ScriptAction_STARTUP = None \<and>
   return_value (script_eventlist_read (sample_env\<lparr>xmlReadFile := (\<lambda>fn. Some (XmlDoc (Some (''html'', []))))\<rparr>)
                   unloaded_state ''scripts.xml'') = Some (- 5) \<and>
   map_option (\<lambda>p. lstate (snd p))
     (script_eventlist_read (sample_env\<lparr>xmlReadFile := (\<lambda>fn. Some (XmlDoc (Some (''html'', []))))\<rparr>)
                   unloaded_state ''scripts.xml'') = Some (lstate unloaded_state)"
proof -
  let ?env = "sample_env\<lparr>xmlReadFile := (\<lambda>fn. Some (XmlDoc (Some (''html'', []))))\<rparr>"
  have h1: "structurally_invalid sample_env ''scripts.xml''"
    by (simp add: structurally_invalid_def sample_env_def)
  have h2: "structurally_invalid ?env ''scripts.xml''"
    by (simp add: structurally_invalid_def sample_env_def)
  have k: "scripts_ref unloaded_state = 0" by (simp add: unloaded_state_def)
  have k1: "0 < scripts_ref loaded_state" by (simp add: loaded_state_def)
  from failed_reload_result [OF h1, of loaded_state]
  obtain rv1 st1 where r1: "script_eventlist_read sample_env loaded_state ''scripts.xml'' = Some (rv1, st1)"
    and b1: "0 < scripts_ref loaded_state \<longrightarrow>
               entries (tables (lstate st1) 0) (scripts_ref loaded_state) = None \<and>
               (\<forall>event. bound_handler st1 event = None)"
    by (elim exE conjE)
  from failed_reload_result [OF h2, of unloaded_state]
  obtain rv2 st2 where r2: "script_eventlist_read ?env unloaded_state ''scripts.xml'' = Some (rv2, st2)"
    and l2: "scripts_ref unloaded_state = 0 \<longrightarrow>
               lstate st2 = lstate unloaded_state \<and> scripts_ref st2 = 0 \<and>
               (\<forall>event. bound_handler st2 event = bound_handler unloaded_state event)"
    by (elim exE conjE)
  have v1: "return_value (script_eventlist_read sample_env loaded_state ''scripts.xml'') = Some (- 2)"
    by (simp add: return_value_def script_eventlist_read_def luaL_unref_registry Let_def
        sample_env_def loaded_state_def)
  have v2: "return_value (script_eventlist_read ?env unloaded_state ''scripts.xml'') = Some (- 5)"
    by (simp add: return_value_def script_eventlist_read_def Let_def
        sample_env_def unloaded_state_def)
  from b1 k1 have "bound_handler st1 ScriptAction_STARTUP = None" by simp
  then have v3: "handler_after (script_eventlist_read sample_env loaded_state ''scripts.xml'')
                   ScriptAction_STARTUP = None"
    unfolding r1 by (simp add: handler_after_def)
  from l2 k have "lstate st2 = lstate unloaded_state" by simp
  with r2 v1 v2 v3 show ?thesis by simp
qed

text \<open>
  C5. \<open>script_add\<close> on the loaded registry, for the startup event, which has a handler,
  and the script \<open>login.lua\<close>, which loads: the prefixed name has 17 characters, so
  \<open>snprintf\<close> writes nothing to \<open>realfn[63]\<close>, and with a non-zero byte left there by
  an earlier stack frame the test \<open>if(realfn[63])\<close> fires. The call logs the
  long-filename warning and returns \<open>-1\<close>; the old handler stays bound.
\<close>

theorem script_add_short_name_rejected:
  "length (''scripts/'' @ ''login.lua'') = 17 \<and>
   load_result sample_env ''login.lua'' = Inr 7 \<and>
   bound_handler loaded_state ScriptAction_STARTUP = Some (LFunction 5) \<and>
   script_add sample_env (\<lambda>i. CHR 0x41) loaded_state ScriptAction_STARTUP ''login.lua'' =
     Some (- 1, debug DBG_WARN Msg_long_filename loaded_state) \<and>
   handler_after
     (script_add sample_env (\<lambda>i. CHR 0x41) loaded_state ScriptAction_STARTUP ''login.lua'')
     ScriptAction_STARTUP = Some (LFunction 5)"
proof -
  have a: "load_result sample_env ''login.lua'' = Inr 7" by (simp add: sample_env_def)
  have b: "bound_handler loaded_state ScriptAction_STARTUP = Some (LFunction 5)"
    by (simp add: bound_handler_def loaded_state_def)
  have t: "snprintf_realfn (\<lambda>i. CHR 0x41) ''login.lua'' 63 = CHR 0x41"
    by (simp add: snprintf_realfn_short)
  have r: "script_add sample_env (\<lambda>i. CHR 0x41) loaded_state ScriptAction_STARTUP ''login.lua'' =
             Some (- 1, debug DBG_WARN Msg_long_filename loaded_state)"
    unfolding script_add_def Let_def t by (simp add: loaded_state_def)
  have h: "handler_after (Some (- 1, debug DBG_WARN Msg_long_filename loaded_state))
             ScriptAction_STARTUP = Some (LFunction 5)"
    by (simp add: handler_after_def bound_handler_def debug_def loaded_state_def)
  show ?thesis unfolding r using a b h by simp
qed

text \<open>
  C7. After a reload of the loaded registry that failed on an unreadable declaration
  file, no scripts table is held under \<open>scripts_ref\<close> and no handler is bound for the
  startup event, but \<open>scripts_ref\<close> and the reference recorded for the event are still
  non-zero: \<open>script_execute\<close> and \<open>script_execute_pkt\<close> pass both guards, fetch nil
  from the registry and hand it to \<open>lua_rawgeti\<close> as the table, where the claim has them
  return 0 without touching the interpreter.
\<close>

theorem execute_after_failed_reload:
  "return_value (script_eventlist_read sample_env loaded_state ''scripts.xml'') = Some (- 2) \<and>
   scripts_table_after (script_eventlist_read sample_env loaded_state ''scripts.xml'') = None \<and>
   handler_after (script_eventlist_read sample_env loaded_state ''scripts.xml'')
     ScriptAction_STARTUP = None \<and>
   execute_after sample_env (script_eventlist_read sample_env loaded_state ''scripts.xml'')
     ScriptAction_STARTUP [] = None \<and>
   execute_pkt_after sample_env (script_eventlist_read sample_env loaded_state ''scripts.xml'')
     ScriptAction_STARTUP 0 ''pkt'' 3 = None"
proof -
  let ?st' = "debug DBG_ERROR Msg_parse_error
                (loaded_state\<lparr>lstate := (lstate loaded_state)\<lparr>tables := (tables (lstate loaded_state))(0 :=
                    (tables (lstate loaded_state) 0)
                      \<lparr>entries := (entries (tables (lstate loaded_state) 0))(3 := None),
                       free_refs := 3 # free_refs (tables (lstate loaded_state) 0)\<rparr>)\<rparr>\<rparr>)"
  have r: "script_eventlist_read sample_env loaded_state ''scripts.xml'' = Some (- 2, ?st')"
    by (simp add: script_eventlist_read_def luaL_unref_registry Let_def sample_env_def
        loaded_state_def)
  have t: "entries (tables (lstate ?st') 0) (scripts_ref ?st') = None"
    by (simp add: debug_def loaded_state_def)
  have d: "bound_handler ?st' ScriptAction_STARTUP = None"
    by (simp add: bound_handler_def debug_def loaded_state_def)
  have e: "script_execute sample_env ?st' ScriptAction_STARTUP [] = None"
    by (simp add: script_execute_def debug_def loaded_state_def lua_rawgeti_def index2table_def
        LUA_REGISTRYINDEX_def lua_push_def)
  have f: "script_execute_pkt sample_env ?st' ScriptAction_STARTUP 0 ''pkt'' 3 = None"
    by (simp add: script_execute_pkt_def debug_def loaded_state_def lua_rawgeti_def
        index2table_def LUA_REGISTRYINDEX_def lua_push_def)
  show ?thesis
    unfolding r using t d e f
    by (simp add: return_value_def scripts_table_after_def handler_after_def execute_after_def
        execute_pkt_after_def)
qed

end
